theory Spec2Isabelle
  imports Complex_Main
begin

chapter \<open>The contracts as functions\<close>

section \<open>JavaScript values shared by the contracts\<close>

text \<open>
  The contracts of \<^verbatim>\<open>smart-contracts/\<close> are asynchronous closures
  \<^verbatim>\<open>async (reader, args) => ...\<close> that read through \<^verbatim>\<open>reader.get\<close>, write
  through \<^verbatim>\<open>storage.saveData\<close> and log through \<^verbatim>\<open>chain.addBlock\<close>. Each one
  is embedded as a function of the read view, of the values that \<^verbatim>\<open>Date.now()\<close> and
  \<^verbatim>\<open>Math.random()\<close> deliver, and of its arguments; it returns the effects it
  performed, in program order, and either the thrown error or the returned value.
\<close>

subsection \<open>Numbers\<close>

text \<open>
  A JavaScript number is a real or one of the three special values of IEEE 754. Every
  finite double is a real, so the comparisons are those of the program. The arithmetic
  is exact on reals (rounding and overflow are not modelled) and follows the standard
  on the special values. A zero divisor is \<open>+0\<close>. An argument that the caller leaves
  out is \<^verbatim>\<open>undefined\<close>, which the comparisons and the arithmetic convert to NaN.
\<close>

datatype num = Fin real | PInf | NInf | NaN

fun num_neg :: "num \<Rightarrow> num" where
  "num_neg (Fin a) = Fin (- a)"
| "num_neg PInf = NInf"
| "num_neg NInf = PInf"
| "num_neg NaN = NaN"

fun num_add :: "num \<Rightarrow> num \<Rightarrow> num" where
  "num_add NaN _ = NaN"
| "num_add _ NaN = NaN"
| "num_add (Fin a) (Fin b) = Fin (a + b)"
| "num_add PInf NInf = NaN"
| "num_add NInf PInf = NaN"
| "num_add PInf _ = PInf"
| "num_add _ PInf = PInf"
| "num_add NInf _ = NInf"
| "num_add _ NInf = NInf"

definition num_sub :: "num \<Rightarrow> num \<Rightarrow> num" where
  "num_sub a b = num_add a (num_neg b)"

text \<open>The sign of a number that is not NaN: negative or not.\<close>

fun negative :: "num \<Rightarrow> bool" where
  "negative (Fin a) = (a < 0)"
| "negative NInf = True"
| "negative _ = False"

fun num_mul :: "num \<Rightarrow> num \<Rightarrow> num" where
  "num_mul NaN _ = NaN"
| "num_mul _ NaN = NaN"
| "num_mul (Fin a) (Fin b) = Fin (a * b)"
| "num_mul (Fin a) b = (if a = 0 then NaN else if (a < 0) = negative b then PInf else NInf)"
| "num_mul a (Fin b) = (if b = 0 then NaN else if negative a = (b < 0) then PInf else NInf)"
| "num_mul a b = (if negative a = negative b then PInf else NInf)"

fun num_div :: "num \<Rightarrow> num \<Rightarrow> num" where
  "num_div NaN _ = NaN"
| "num_div _ NaN = NaN"
| "num_div (Fin a) (Fin b) =
     (if b \<noteq> 0 then Fin (a / b) else if a = 0 then NaN else if a < 0 then NInf else PInf)"
| "num_div (Fin a) _ = Fin 0"
| "num_div a (Fin b) = (if negative a = (b < 0) then PInf else NInf)"
| "num_div _ _ = NaN"

fun num_abs :: "num \<Rightarrow> num" where
  "num_abs (Fin a) = Fin \<bar>a\<bar>"
| "num_abs NaN = NaN"
| "num_abs _ = PInf"

fun num_lt :: "num \<Rightarrow> num \<Rightarrow> bool" where
  "num_lt NaN _ = False"
| "num_lt _ NaN = False"
| "num_lt (Fin a) (Fin b) = (a < b)"
| "num_lt _ NInf = False"
| "num_lt PInf _ = False"
| "num_lt _ _ = True"

fun num_exp :: "num \<Rightarrow> num" where
  "num_exp (Fin a) = Fin (exp a)"
| "num_exp PInf = PInf"
| "num_exp NInf = Fin 0"
| "num_exp NaN = NaN"

text \<open>\<^verbatim>\<open>Math.pow(x, m)\<close> for an exponent that is a natural number.\<close>

fun num_pow :: "num \<Rightarrow> nat \<Rightarrow> num" where
  "num_pow x 0 = Fin 1"
| "num_pow (Fin a) m = Fin (a ^ m)"
| "num_pow PInf m = PInf"
| "num_pow NInf m = (if odd m then NInf else PInf)"
| "num_pow NaN m = NaN"

text \<open>\<^verbatim>\<open>a <= b\<close>: false as soon as one side is NaN.\<close>

fun num_le :: "num \<Rightarrow> num \<Rightarrow> bool" where
  "num_le NaN _ = False"
| "num_le _ NaN = False"
| "num_le (Fin a) (Fin b) = (a \<le> b)"
| "num_le NInf _ = True"
| "num_le _ PInf = True"
| "num_le _ _ = False"

subsection \<open>Objects, strings, clock\<close>

text \<open>
  A property value is a string, an integer such as a timestamp, any other number, or
  \<^verbatim>\<open>null\<close>.
\<close>

datatype jsval = Str string | Num int | Number num | Null

type_synonym obj = "(string \<times> jsval) list"

text \<open>Property assignment keeps the position of an existing key and appends a new one.\<close>

fun obj_set :: "obj \<Rightarrow> string \<Rightarrow> jsval \<Rightarrow> obj" where
  "obj_set [] k v = [(k, v)]"
| "obj_set ((k', v') # ps) k v =
     (if k' = k then (k, v) # ps else (k', v') # obj_set ps k v)"

text \<open>
  An object literal defines its properties from left to right; a spread
  \<^verbatim>\<open>...tx\<close> contributes the properties of \<^verbatim>\<open>tx\<close> at its place, so a later
  definition of a key replaces an earlier one.
\<close>

definition obj_lit :: "(string \<times> jsval) list \<Rightarrow> obj" where
  "obj_lit ps = foldl (\<lambda>acc (k, v). obj_set acc k v) [] ps"

definition obj_get :: "obj \<Rightarrow> string \<Rightarrow> jsval option" where
  "obj_get ob k = map_of ob k"

text \<open>Template literals print numbers in decimal.\<close>

definition digit_char :: "nat \<Rightarrow> char" where
  "digit_char d = char_of (48 + d)"

function show_nat :: "nat \<Rightarrow> string" where
  "show_nat n = (if n < 10 then [digit_char n] else show_nat (n div 10) @ [digit_char (n mod 10)])"
  by pat_completeness auto
termination
  by (relation "measure id") auto

declare show_nat.simps [simp del]

text \<open>
  The clock and the random source: \<open>now e i\<close> is what the \<open>i\<close>-th call of
  \<^verbatim>\<open>Date.now()\<close> in one execution returns, \<open>rnd e\<close> is
  \<^verbatim>\<open>Math.random().toString(36).substr(2, 9)\<close>.
\<close>

record env =
  now :: "nat \<Rightarrow> nat"
  rnd :: string

text \<open>
  A thrown \<^verbatim>\<open>Error\<close> by its message; \<open>ErrorWith m x\<close> has the message \<open>m\<close>
  followed by the number \<open>x\<close> as the template literal prints it.
\<close>

datatype error = Error string | ErrorWith string num

datatype 'v event = Get string | Save string 'v bool | AddBlock obj

section \<open>Storage and chain as the contracts see them\<close>

text \<open>
  Modelled from the spec: the files \<^verbatim>\<open>lib/storage.js\<close>, \<^verbatim>\<open>lib/chain.js\<close> and
  \<^verbatim>\<open>lib/contract.js\<close> are not among the sources. Section 4.2 of the specification
  lets \<^verbatim>\<open>saveData(id, data, {encrypted})\<close> persist the record under \<open>id\<close> and
  register the write on the chain with a block \<^verbatim>\<open>{op:'write', id, contentDigest}\<close>;
  the digest commits to the plaintext, which stands for it here. Section 4.1 lets
  \<^verbatim>\<open>addBlock(data)\<close> append one block. Section 4.3 gives the procedure a read
  view whose \<^verbatim>\<open>get(key)\<close> is \<^verbatim>\<open>loadData(key)\<close>, and nothing when the key is absent.
\<close>

datatype 'v block = Registered string 'v | Appended obj

record 'v world =
  store :: "string \<rightharpoonup> ('v \<times> bool)"
  chain :: "'v block list"

definition readView :: "'v world \<Rightarrow> string \<Rightarrow> 'v option" where
  "readView w k = map_option fst (store w k)"

definition saveData :: "string \<Rightarrow> 'v \<Rightarrow> bool \<Rightarrow> 'v world \<Rightarrow> 'v world" where
  "saveData k v enc w = w\<lparr>store := (store w)(k \<mapsto> (v, enc)), chain := chain w @ [Registered k v]\<rparr>"

definition addBlock :: "obj \<Rightarrow> 'v world \<Rightarrow> 'v world" where
  "addBlock d w = w\<lparr>chain := chain w @ [Appended d]\<rparr>"

fun perform :: "'v event \<Rightarrow> 'v world \<Rightarrow> 'v world" where
  "perform (Get k) w = w"
| "perform (Save k v enc) w = saveData k v enc w"
| "perform (AddBlock d) w = addBlock d w"

text \<open>
  \<^verbatim>\<open>execute\<close> hands the procedure the read view and lets its effects happen in the
  order it issued them; the outcome is passed on unchanged.
\<close>

definition execute ::
  "((string \<Rightarrow> 'v option) \<Rightarrow> 'v event list \<times> (error + 'r)) \<Rightarrow> 'v world \<Rightarrow> (error + 'r) \<times> 'v world" where
  "execute proc w = (let (evs, out) = proc (readView w) in (out, fold perform evs w))"

definition gets :: "'v event list \<Rightarrow> string list" where
  "gets evs = concat (map (\<lambda>e. case e of Get k \<Rightarrow> [k] | _ \<Rightarrow> []) evs)"

definition saves :: "'v event list \<Rightarrow> (string \<times> 'v \<times> bool) list" where
  "saves evs = concat (map (\<lambda>e. case e of Save k v enc \<Rightarrow> [(k, v, enc)] | _ \<Rightarrow> []) evs)"

definition blocks :: "'v event list \<Rightarrow> obj list" where
  "blocks evs = concat (map (\<lambda>e. case e of AddBlock d \<Rightarrow> [d] | _ \<Rightarrow> []) evs)"

text \<open>The values saved under one key, in the order of the saves.\<close>

definition saved_at :: "string \<Rightarrow> 'v event list \<Rightarrow> 'v list" where
  "saved_at k evs = map (\<lambda>(k', v, enc). v) (filter (\<lambda>(k', v, enc). k' = k) (saves evs))"

section \<open>Token (smart-contracts/token.js)\<close>

text \<open>
  A balance record as the procedures write it. Amounts and balances are JavaScript
  numbers: the procedures compare and add whatever number they are given, NaN included.
\<close>

record balance_rec =
  address :: string
  balance :: num
  updated :: nat

text \<open>\<^verbatim>\<open>((await reader.get(key)) || { balance: 0 }).balance\<close>\<close>

definition balance_or_zero :: "balance_rec option \<Rightarrow> num" where
  "balance_or_zero r = (case r of None \<Rightarrow> Fin 0 | Some b \<Rightarrow> balance b)"

definition balance_key :: "string \<Rightarrow> string" where
  "balance_key a = ''balance:'' @ a"

datatype token_result =
    TransferOk (txId: string) (fromBalance: num) (toBalance: num)
  | SingleOk (txId: string) (newBalance: num)
  | PrivateTransferOk (fromBalance: num) (toBalance: num)
  | PrivateSingleOk (newBalance: num)

definition transferProc ::
  "(string \<Rightarrow> balance_rec option) \<Rightarrow> env \<Rightarrow> string \<Rightarrow> string \<Rightarrow> num
    \<Rightarrow> balance_rec event list \<times> (error + token_result)" where
  "transferProc reader e from to amount =
     (if num_le amount (Fin 0) then ([], Inl (Error ''Transfer amount must be positive''))
      else
        let fromBalance = balance_or_zero (reader (balance_key from)) in
        if num_lt fromBalance amount
        then ([Get (balance_key from)],
              Inl (ErrorWith ''Insufficient balance. Available: '' fromBalance))
        else
          let toBalance = balance_or_zero (reader (balance_key to));
              newFromBalance = \<lparr>address = from, balance = num_sub fromBalance amount, updated = now e 0\<rparr>;
              newToBalance = \<lparr>address = to, balance = num_add toBalance amount, updated = now e 1\<rparr>;
              tx = [(''type'', Str ''transfer''), (''from'', Str from), (''to'', Str to),
                    (''amount'', Number amount), (''timestamp'', Num (int (now e 2))),
                    (''txId'', Str (''tx-'' @ show_nat (now e 3) @ ''-'' @ rnd e))]
          in ([Get (balance_key from), Get (balance_key to),
               Save (balance_key from) newFromBalance False,
               Save (balance_key to) newToBalance False,
               AddBlock (obj_lit ((''type'', Str ''token-transfer'') # tx))],
              Inr (TransferOk (''tx-'' @ show_nat (now e 3) @ ''-'' @ rnd e)
                     (balance newFromBalance) (balance newToBalance))))"

definition mintProc ::
  "(string \<Rightarrow> balance_rec option) \<Rightarrow> env \<Rightarrow> string \<Rightarrow> num \<Rightarrow> jsval
    \<Rightarrow> balance_rec event list \<times> (error + token_result)" where
  "mintProc reader e to amount bridgeTxHash =
     (if num_le amount (Fin 0) then ([], Inl (Error ''Mint amount must be positive''))
      else
        let bal = balance_or_zero (reader (balance_key to));
            newBalance = \<lparr>address = to, balance = num_add bal amount, updated = now e 0\<rparr>;
            tx = [(''type'', Str ''mint''), (''to'', Str to), (''amount'', Number amount),
                  (''bridgeTxHash'', bridgeTxHash), (''timestamp'', Num (int (now e 1))),
                  (''txId'', Str (''mint-'' @ show_nat (now e 2) @ ''-'' @ rnd e))]
        in ([Get (balance_key to),
             Save (balance_key to) newBalance False,
             AddBlock (obj_lit ((''type'', Str ''token-mint'') # tx))],
            Inr (SingleOk (''mint-'' @ show_nat (now e 2) @ ''-'' @ rnd e) (balance newBalance))))"

definition burnProc ::
  "(string \<Rightarrow> balance_rec option) \<Rightarrow> env \<Rightarrow> string \<Rightarrow> num \<Rightarrow> jsval
    \<Rightarrow> balance_rec event list \<times> (error + token_result)" where
  "burnProc reader e from amount bridgeAddress =
     (if num_le amount (Fin 0) then ([], Inl (Error ''Burn amount must be positive''))
      else
        let bal = balance_or_zero (reader (balance_key from)) in
        if num_lt bal amount
        then ([Get (balance_key from)],
              Inl (ErrorWith ''Insufficient balance. Available: '' bal))
        else
          let newBalance = \<lparr>address = from, balance = num_sub bal amount, updated = now e 0\<rparr>;
              tx = [(''type'', Str ''burn''), (''from'', Str from), (''amount'', Number amount),
                    (''bridgeAddress'', bridgeAddress), (''timestamp'', Num (int (now e 1))),
                    (''txId'', Str (''burn-'' @ show_nat (now e 2) @ ''-'' @ rnd e))]
          in ([Get (balance_key from),
               Save (balance_key from) newBalance False,
               AddBlock (obj_lit ((''type'', Str ''token-burn'') # tx))],
              Inr (SingleOk (''burn-'' @ show_nat (now e 2) @ ''-'' @ rnd e) (balance newBalance))))"

subsection \<open>PrivateToken (smart-contracts/private-token.js)\<close>

definition privateTransferProc ::
  "(string \<Rightarrow> balance_rec option) \<Rightarrow> env \<Rightarrow> string \<Rightarrow> string \<Rightarrow> num
    \<Rightarrow> balance_rec event list \<times> (error + token_result)" where
  "privateTransferProc reader e from to amount =
     (if num_le amount (Fin 0) then ([], Inl (Error ''Transfer amount must be positive''))
      else
        let fromBalance = balance_or_zero (reader (balance_key from)) in
        if num_lt fromBalance amount
        then ([Get (balance_key from)],
              Inl (ErrorWith ''Insufficient balance. Available: '' fromBalance))
        else
          let toBalance = balance_or_zero (reader (balance_key to));
              newFromBalance = \<lparr>address = from, balance = num_sub fromBalance amount, updated = now e 0\<rparr>;
              newToBalance = \<lparr>address = to, balance = num_add toBalance amount, updated = now e 1\<rparr>
          in ([Get (balance_key from), Get (balance_key to),
               Save (balance_key from) newFromBalance True,
               Save (balance_key to) newToBalance True],
              Inr (PrivateTransferOk (balance newFromBalance) (balance newToBalance))))"

definition privateMintProc ::
  "(string \<Rightarrow> balance_rec option) \<Rightarrow> env \<Rightarrow> string \<Rightarrow> num \<Rightarrow> jsval
    \<Rightarrow> balance_rec event list \<times> (error + token_result)" where
  "privateMintProc reader e to amount bridgeTxHash =
     (if num_le amount (Fin 0) then ([], Inl (Error ''Mint amount must be positive''))
      else
        let bal = balance_or_zero (reader (balance_key to));
            newBalance = \<lparr>address = to, balance = num_add bal amount, updated = now e 0\<rparr>
        in ([Get (balance_key to), Save (balance_key to) newBalance True],
            Inr (PrivateSingleOk (balance newBalance))))"

definition privateBurnProc ::
  "(string \<Rightarrow> balance_rec option) \<Rightarrow> env \<Rightarrow> string \<Rightarrow> num \<Rightarrow> jsval
    \<Rightarrow> balance_rec event list \<times> (error + token_result)" where
  "privateBurnProc reader e from amount bridgeAddress =
     (if num_le amount (Fin 0) then ([], Inl (Error ''Burn amount must be positive''))
      else
        let bal = balance_or_zero (reader (balance_key from)) in
        if num_lt bal amount
        then ([Get (balance_key from)],
              Inl (ErrorWith ''Insufficient balance. Available: '' bal))
        else
          let newBalance = \<lparr>address = from, balance = num_sub bal amount, updated = now e 0\<rparr>
          in ([Get (balance_key from), Save (balance_key from) newBalance True],
              Inr (PrivateSingleOk (balance newBalance))))"

text \<open>
  Fixtures for concrete runs: a clock, a view in which alice holds 100, and the storage
  that gives this view.
\<close>

definition env0 :: env where
  "env0 = \<lparr>now = (\<lambda>i. 1000 + i), rnd = ''k3j9x0a1b''\<rparr>"

definition alice_view :: "string \<Rightarrow> balance_rec option" where
  "alice_view k =
     (if k = ''balance:alice'' then Some \<lparr>address = ''alice'', balance = Fin 100, updated = 0\<rparr>
      else None)"

definition alice_world :: "balance_rec world" where
  "alice_world =
     \<lparr>store = [''balance:alice'' \<mapsto> (\<lparr>address = ''alice'', balance = Fin 100, updated = 0\<rparr>, False)],
      chain = []\<rparr>"

section \<open>WishList (smart-contracts/wishlist.js)\<close>

text \<open>
  A field that holds a string or \<^verbatim>\<open>null\<close> is a \<open>string option\<close>. JavaScript's
  \<^verbatim>\<open>!x\<close> holds of \<^verbatim>\<open>null\<close> and of the empty string; the arguments of the
  procedures are strings, so \<^verbatim>\<open>!ownerId\<close> is \<open>ownerId = []\<close>.
\<close>

definition truthy :: "string option \<Rightarrow> bool" where
  "truthy s = (case s of None \<Rightarrow> False | Some t \<Rightarrow> t \<noteq> [])"

text \<open>\<^verbatim>\<open>Array.prototype.findIndex\<close>: the first index that satisfies the test; \<open>-1\<close> is \<open>None\<close>.\<close>

fun findIndex :: "('a \<Rightarrow> bool) \<Rightarrow> 'a list \<Rightarrow> nat option" where
  "findIndex P [] = None"
| "findIndex P (x # xs) = (if P x then Some 0 else map_option Suc (findIndex P xs))"

record item =
  item_id :: string
  item_name :: string
  description :: string
  url :: "string option"
  price :: "int option"
  priority :: string
  status :: string
  reservedBy :: "string option"
  reservedAt :: "nat option"
  item_createdAt :: nat
  metadata :: obj

record wishlist =
  wl_userId :: string
  items :: "item list"
  wl_createdAt :: nat
  wl_updatedAt :: nat

record reservation =
  entry_itemId :: string
  entry_ownerId :: string
  entry_itemName :: string
  entry_reservedAt :: nat
  entry_status :: string

record reservations_rec =
  rs_userId :: string
  reservations :: "reservation list"
  rs_createdAt :: nat
  rs_updatedAt :: nat

datatype wl_value = WishList wishlist | Reservations reservations_rec

text \<open>
  The read view of the wish-list contracts, by kind of record: what is stored under
  \<^verbatim>\<open>wishlist:${userId}\<close> and under \<^verbatim>\<open>reservations:${userId}\<close>.
\<close>

record wl_view =
  wishlistOf :: "string \<rightharpoonup> wishlist"
  reservationsOf :: "string \<rightharpoonup> reservations_rec"

definition wishlist_key :: "string \<Rightarrow> string" where
  "wishlist_key u = ''wishlist:'' @ u"

definition reservations_key :: "string \<Rightarrow> string" where
  "reservations_key u = ''reservations:'' @ u"


datatype wl_result =
    ReserveOk (res_item: item) (res_ownerId: string) (res_reservedBy: string) (res_reservedAt: "nat option")
  | UpdateOk (res_item: item) (res_oldStatus: string) (res_newStatus: string)

definition reserveItemProc ::
  "wl_view \<Rightarrow> env \<Rightarrow> string \<Rightarrow> string \<Rightarrow> string \<Rightarrow> wl_value event list \<times> (error + wl_result)" where
  "reserveItemProc reader e ownerId itemId reservedBy' =
     (if ownerId = [] \<or> itemId = [] \<or> reservedBy' = []
      then ([], Inl (Error ''Missing required fields: ownerId, itemId, reservedBy''))
      else
        case wishlistOf reader ownerId of
          None \<Rightarrow> ([Get (wishlist_key ownerId)],
                    Inl (Error (''Wish list not found for user '' @ ownerId)))
        | Some wishList \<Rightarrow>
           (case findIndex (\<lambda>it. item_id it = itemId) (items wishList) of
              None \<Rightarrow> ([Get (wishlist_key ownerId)],
                        Inl (Error (''Item '' @ itemId @ '' not found in wish list'')))
            | Some itemIndex \<Rightarrow>
                let it = items wishList ! itemIndex in
                if status it \<noteq> ''available''
                then ([Get (wishlist_key ownerId)],
                      Inl (Error (''Item is not available. Current status: '' @ status it)))
                else if truthy (reservedBy it)
                then ([Get (wishlist_key ownerId)], Inl (Error ''Item is already reserved''))
                else if ownerId = reservedBy'
                then ([Get (wishlist_key ownerId)], Inl (Error ''Cannot reserve your own item''))
                else
                  let it' = it\<lparr>status := ''reserved'', reservedBy := Some reservedBy',
                                  reservedAt := Some (now e 0)\<rparr>;
                      wishList' = wishList\<lparr>items := (items wishList)[itemIndex := it'],
                                              wl_updatedAt := now e 1\<rparr>;
                      stored = reservationsOf reader reservedBy';
                      c = (case stored of None \<Rightarrow> 4 | Some _ \<Rightarrow> 2);
                      reserverReservations =
                        (case stored of
                           Some x \<Rightarrow> x
                         | None \<Rightarrow> \<lparr>rs_userId = reservedBy', reservations = [],
                                      rs_createdAt = now e 2, rs_updatedAt = now e 3\<rparr>);
                      entry = \<lparr>entry_itemId = itemId, entry_ownerId = ownerId,
                               entry_itemName = item_name it', entry_reservedAt = now e c,
                               entry_status = ''reserved''\<rparr>;
                      reserverReservations' =
                        reserverReservations\<lparr>reservations := reservations reserverReservations @ [entry],
                                               rs_updatedAt := now e (c + 1)\<rparr>
                  in ([Get (wishlist_key ownerId),
                       Save (wishlist_key ownerId) (WishList wishList') False,
                       Get (reservations_key reservedBy'),
                       Save (reservations_key reservedBy') (Reservations reserverReservations') False,
                       AddBlock (obj_lit [(''type'', Str ''wishlist-item-reserved''),
                                          (''ownerId'', Str ownerId), (''itemId'', Str itemId),
                                          (''reservedBy'', Str reservedBy'),
                                          (''itemName'', Str (item_name it')),
                                          (''timestamp'', Num (int (now e (c + 2))))])],
                      Inr (ReserveOk it' ownerId reservedBy' (reservedAt it')))))"



text \<open>
  Fixtures for the wish list: alice's list with one available item, and the same list
  after bob reserved the item.
\<close>

definition macbook :: item where
  "macbook = \<lparr>item_id = ''item-1'', item_name = ''MacBook Pro'', description = ''Laptop'',
               url = None, price = Some 2499, priority = ''high'', status = ''available'',
               reservedBy = None, reservedAt = None, item_createdAt = 900, metadata = []\<rparr>"

definition alice_list :: wishlist where
  "alice_list = \<lparr>wl_userId = ''alice'', items = [macbook], wl_createdAt = 900, wl_updatedAt = 900\<rparr>"


definition fresh_view :: wl_view where
  "fresh_view = \<lparr>wishlistOf = [''alice'' \<mapsto> alice_list], reservationsOf = Map.empty\<rparr>"


section \<open>ChatAgent (smart-contracts/chat.js)\<close>

record message =
  msg_id :: string
  msg_threadId :: string
  role :: string
  content :: string
  timestamp :: nat
  msg_metadata :: obj

record thread =
  th_threadId :: string
  th_userId :: string
  messages :: "message list"
  th_createdAt :: nat
  th_updatedAt :: nat
  th_context :: obj

record user_threads =
  threads :: "string list"

datatype chat_value = Thread thread | UserThreads user_threads

record chat_view =
  threadOf :: "string \<rightharpoonup> thread"
  userThreadsOf :: "string \<rightharpoonup> user_threads"

definition thread_key :: "string \<Rightarrow> string" where
  "thread_key t = ''thread:'' @ t"

definition user_threads_key :: "string \<Rightarrow> string" where
  "user_threads_key u = ''user:'' @ u @ '':threads''"

definition chat_view_of :: "(string \<Rightarrow> chat_value option) \<Rightarrow> chat_view" where
  "chat_view_of r =
     \<lparr>threadOf = (\<lambda>t. case r (thread_key t) of Some (Thread x) \<Rightarrow> Some x | _ \<Rightarrow> None),
      userThreadsOf = (\<lambda>u. case r (user_threads_key u) of Some (UserThreads x) \<Rightarrow> Some x | _ \<Rightarrow> None)\<rparr>"

record send_result =
  sent_message :: message
  sent_threadId :: string
  sent_messageCount :: nat

definition sendMessageProc ::
  "chat_view \<Rightarrow> env \<Rightarrow> string \<Rightarrow> string \<Rightarrow> string \<Rightarrow> string \<Rightarrow> obj
    \<Rightarrow> chat_value event list \<times> (error + send_result)" where
  "sendMessageProc reader e threadId userId role' content' metadata' =
     (if threadId = [] \<or> userId = [] \<or> role' = [] \<or> content' = []
      then ([], Inl (Error ''Missing required fields: threadId, userId, role, content''))
      else if role' \<notin> set [''user'', ''assistant'', ''system'']
      then ([], Inl (Error ''Invalid role. Must be: user, assistant, or system''))
      else
        let stored = threadOf reader threadId;
            c = (case stored of None \<Rightarrow> 2 | Some _ \<Rightarrow> 0);
            thread = (case stored of
                        Some t \<Rightarrow> t
                      | None \<Rightarrow> \<lparr>th_threadId = threadId, th_userId = userId, messages = [],
                                   th_createdAt = now e 0, th_updatedAt = now e 1, th_context = []\<rparr>)
        in
        if th_userId thread \<noteq> userId
        then ([Get (thread_key threadId)], Inl (Error ''Thread does not belong to this user''))
        else
          let msg = \<lparr>msg_id = ''msg-'' @ show_nat (now e c) @ ''-'' @ rnd e,
                     msg_threadId = threadId, role = role', content = content',
                     timestamp = now e (c + 1), msg_metadata = metadata'\<rparr>;
              thread' = thread\<lparr>messages := messages thread @ [msg], th_updatedAt := now e (c + 2)\<rparr>;
              userThreads = (case userThreadsOf reader userId of
                               Some u \<Rightarrow> u | None \<Rightarrow> \<lparr>threads = []\<rparr>)
          in ([Get (thread_key threadId),
               Save (thread_key threadId) (Thread thread') False,
               Get (user_threads_key userId)] @
              (if threadId \<notin> set (threads userThreads)
               then [Save (user_threads_key userId)
                       (UserThreads (userThreads\<lparr>threads := threads userThreads @ [threadId]\<rparr>)) False]
               else []) @
              [AddBlock (obj_lit [(''type'', Str ''chat-message''), (''threadId'', Str threadId),
                                  (''userId'', Str userId), (''messageId'', Str (msg_id msg)),
                                  (''role'', Str role'), (''timestamp'', Num (int (timestamp msg)))])],
              Inr \<lparr>sent_message = msg, sent_threadId = threadId,
                    sent_messageCount = length (messages thread')\<rparr>))"

text \<open>
  The consistency loop of \<^verbatim>\<open>getConversationProc\<close>: \<open>seen\<close> is the set
  \<^verbatim>\<open>messageIds\<close>; the result is the error thrown, if any. A timestamp is a number,
  so \<^verbatim>\<open>!msg.timestamp\<close> is \<open>timestamp msg = 0\<close>.
\<close>

fun checkMessages :: "string set \<Rightarrow> message list \<Rightarrow> error option" where
  "checkMessages seen [] = None"
| "checkMessages seen (msg # rest) =
     (if msg_id msg \<in> seen then Some (Error (''Duplicate message ID found: '' @ msg_id msg))
      else if timestamp msg = 0 \<or> role msg = [] \<or> content msg = []
      then Some (Error (''Invalid message format: '' @ msg_id msg))
      else checkMessages (insert (msg_id msg) seen) rest)"

text \<open>
  \<^verbatim>\<open>xs.slice(start)\<close>: a negative \<open>start\<close> counts from the end and stops at the
  beginning; a non-negative one stops at the end.
\<close>

definition js_slice :: "int \<Rightarrow> 'a list \<Rightarrow> 'a list" where
  "js_slice start xs =
     (if start < 0 then drop (nat (int (length xs) + start)) xs else drop (nat start) xs)"

record conversation =
  conv_threadId :: string
  conv_userId :: string
  conv_messages :: "message list"
  conv_context :: obj
  conv_createdAt :: nat
  conv_updatedAt :: nat
  messageCount :: nat
  totalMessages :: nat

text \<open>
  \<^verbatim>\<open>[...messages].sort((a, b) => a.timestamp - b.timestamp)\<close> is a stable sort by
  timestamp, as \<open>sort_key\<close> is. The argument \<open>limit\<close> is a number or \<^verbatim>\<open>null\<close>;
  \<^verbatim>\<open>null\<close> and \<open>0\<close> are falsy.
\<close>

definition getConversationProc ::
  "chat_view \<Rightarrow> string \<Rightarrow> string \<Rightarrow> int option
    \<Rightarrow> chat_value event list \<times> (error + conversation)" where
  "getConversationProc reader threadId userId limit =
     (if threadId = [] \<or> userId = []
      then ([], Inl (Error ''Missing required fields: threadId, userId''))
      else
        case threadOf reader threadId of
          None \<Rightarrow> ([Get (thread_key threadId)], Inl (Error (''Thread '' @ threadId @ '' not found'')))
        | Some thread \<Rightarrow>
            if th_userId thread \<noteq> userId
            then ([Get (thread_key threadId)], Inl (Error ''Thread does not belong to this user''))
            else
              let sortedMessages = sort_key timestamp (messages thread) in
              (case checkMessages {} sortedMessages of
                 Some err \<Rightarrow> ([Get (thread_key threadId)], Inl err)
               | None \<Rightarrow>
                   let limitedMessages =
                         (case limit of
                            None \<Rightarrow> sortedMessages
                          | Some n \<Rightarrow> if n \<noteq> 0 then js_slice (- n) sortedMessages else sortedMessages)
                   in ([Get (thread_key threadId)],
                       Inr \<lparr>conv_threadId = threadId, conv_userId = userId,
                             conv_messages = limitedMessages, conv_context = th_context thread,
                             conv_createdAt = th_createdAt thread, conv_updatedAt = th_updatedAt thread,
                             messageCount = length (messages thread),
                             totalMessages = length (messages thread)\<rparr>)))"

text \<open>
  Fixtures for the chat: an empty storage, and one that holds the thread \<open>t1\<close> of user
  \<open>u2\<close> with two messages, the later one stored first.
\<close>

definition empty_world :: "chat_value world" where
  "empty_world = \<lparr>store = Map.empty, chain = []\<rparr>"

definition hello :: message where
  "hello = \<lparr>msg_id = ''msg-1'', msg_threadId = ''t1'', role = ''user'', content = ''Hello'',
             timestamp = 10, msg_metadata = []\<rparr>"

definition reply :: message where
  "reply = \<lparr>msg_id = ''msg-2'', msg_threadId = ''t1'', role = ''assistant'', content = ''Hi'',
             timestamp = 20, msg_metadata = []\<rparr>"

definition thread1 :: thread where
  "thread1 = \<lparr>th_threadId = ''t1'', th_userId = ''u2'', messages = [reply, hello],
               th_createdAt = 5, th_updatedAt = 20, th_context = []\<rparr>"

definition thread1_world :: "chat_value world" where
  "thread1_world = \<lparr>store = [''thread:t1'' \<mapsto> (Thread thread1, False)], chain = []\<rparr>"

definition thread1_view :: chat_view where
  "thread1_view = \<lparr>threadOf = [''t1'' \<mapsto> thread1], userThreadsOf = Map.empty\<rparr>"

section \<open>BondingCurve (smart-contracts/bonding-curve.js)\<close>

text \<open>
  The pricing functions compute with JavaScript numbers, modelled as above. Their only
  divisors are the constant 2 and the parameters \<open>k\<close>, \<open>n + 1\<close> and \<open>r\<close> of
  the curve.
\<close>

datatype curve_type = Linear | Polynomial | Exponential | Other string

text \<open>
  The private fields of a \<^verbatim>\<open>BondingCurve\<close>: the multiplier \<open>k\<close>, the polynomial
  exponent \<open>n\<close> (a natural number; 2 by default) and the exponential rate \<open>r\<close>.
\<close>

record curve =
  curveType :: curve_type
  curve_k :: real
  curve_n :: nat
  curve_r :: real

definition calculatePrice :: "curve \<Rightarrow> num \<Rightarrow> error + num" where
  "calculatePrice c supply =
     (case curveType c of
        Linear \<Rightarrow> Inr (num_mul (Fin (curve_k c)) supply)
      | Polynomial \<Rightarrow> Inr (num_mul (Fin (curve_k c)) (num_pow supply (curve_n c)))
      | Exponential \<Rightarrow> Inr (num_mul (Fin (curve_k c)) (num_exp (num_mul (Fin (curve_r c)) supply)))
      | Other t \<Rightarrow> Inl (Error (''Unknown curve type: '' @ t)))"

definition calculateIntegral :: "curve \<Rightarrow> num \<Rightarrow> num \<Rightarrow> error + num" where
  "calculateIntegral c supply1 supply2 =
     (case curveType c of
        Linear \<Rightarrow>
          Inr (num_mul (num_div (Fin (curve_k c)) (Fin 2))
                 (num_sub (num_mul supply2 supply2) (num_mul supply1 supply1)))
      | Polynomial \<Rightarrow>
          Inr (num_mul (num_div (Fin (curve_k c)) (Fin (real (curve_n c + 1))))
                 (num_sub (num_pow supply2 (curve_n c + 1)) (num_pow supply1 (curve_n c + 1))))
      | Exponential \<Rightarrow>
          Inr (num_mul (num_div (Fin (curve_k c)) (Fin (curve_r c)))
                 (num_sub (num_exp (num_mul (Fin (curve_r c)) supply2))
                          (num_exp (num_mul (Fin (curve_r c)) supply1))))
      | Other t \<Rightarrow> Inl (Error (''Unknown curve type: '' @ t)))"

definition tolerance :: real where
  "tolerance = 1 / 10000"

definition maxIterations :: nat where
  "maxIterations = 100"

text \<open>
  The loop of \<^verbatim>\<open>calculateTokensForPayment\<close>, entered with the loop variable \<open>i\<close> and
  the bracket; besides the value it returns, it reports the value of \<open>i\<close> at the
  \<^verbatim>\<open>return\<close>, the number of iterations completed before.
\<close>

function bisect :: "curve \<Rightarrow> real \<Rightarrow> real \<Rightarrow> nat \<Rightarrow> num \<Rightarrow> num \<Rightarrow> error + (num \<times> nat)" where
  "bisect c currentSupply paymentAmount i low high =
     (if i < maxIterations
      then
        (case calculateIntegral c (Fin currentSupply) (num_div (num_add low high) (Fin 2)) of
           Inl err \<Rightarrow> Inl err
         | Inr cost \<Rightarrow>
             if num_lt (num_abs (num_sub cost (Fin paymentAmount))) (Fin tolerance)
             then Inr (num_sub (num_div (num_add low high) (Fin 2)) (Fin currentSupply), i)
             else if num_lt cost (Fin paymentAmount)
             then bisect c currentSupply paymentAmount (i + 1) (num_div (num_add low high) (Fin 2)) high
             else bisect c currentSupply paymentAmount (i + 1) low (num_div (num_add low high) (Fin 2)))
      else Inr (num_sub (num_div (num_add low high) (Fin 2)) (Fin currentSupply), i))"
  by pat_completeness auto
termination
  by (relation "measure (\<lambda>(c, currentSupply, paymentAmount, i, low, high). maxIterations - i)") auto

declare bisect.simps [simp del]

definition upperBound :: "curve \<Rightarrow> real \<Rightarrow> real \<Rightarrow> num" where
  "upperBound c currentSupply paymentAmount =
     num_add (Fin currentSupply) (num_div (Fin paymentAmount) (Fin (curve_k c)))"

definition calculateTokensForPayment :: "curve \<Rightarrow> real \<Rightarrow> real \<Rightarrow> error + num" where
  "calculateTokensForPayment c currentSupply paymentAmount =
     map_sum id fst
       (bisect c currentSupply paymentAmount 0 (Fin currentSupply)
          (upperBound c currentSupply paymentAmount))"

text \<open>
  The words of the claim, for comparison with the loop: the bracket after \<open>j\<close>
  halvings that did not return, its midpoint, and whether the cost of that midpoint is
  within the tolerance of the payment.
\<close>

fun bracket :: "curve \<Rightarrow> real \<Rightarrow> real \<Rightarrow> nat \<Rightarrow> num \<times> num" where
  "bracket c currentSupply paymentAmount 0 =
     (Fin currentSupply, upperBound c currentSupply paymentAmount)"
| "bracket c currentSupply paymentAmount (Suc j) =
     (let (low, high) = bracket c currentSupply paymentAmount j;
          mid = num_div (num_add low high) (Fin 2)
      in case calculateIntegral c (Fin currentSupply) mid of
           Inr cost \<Rightarrow> if num_lt cost (Fin paymentAmount) then (mid, high) else (low, mid)
         | Inl err \<Rightarrow> (low, high))"

definition midpoint :: "curve \<Rightarrow> real \<Rightarrow> real \<Rightarrow> nat \<Rightarrow> num" where
  "midpoint c currentSupply paymentAmount j =
     (let (low, high) = bracket c currentSupply paymentAmount j
      in num_div (num_add low high) (Fin 2))"

definition within_tolerance :: "curve \<Rightarrow> real \<Rightarrow> real \<Rightarrow> nat \<Rightarrow> bool" where
  "within_tolerance c currentSupply paymentAmount j =
     (case calculateIntegral c (Fin currentSupply) (midpoint c currentSupply paymentAmount j) of
        Inr cost \<Rightarrow> num_lt (num_abs (num_sub cost (Fin paymentAmount))) (Fin tolerance)
      | Inl err \<Rightarrow> False)"

definition supported :: "curve \<Rightarrow> bool" where
  "supported c = (case curveType c of Other t \<Rightarrow> False | _ \<Rightarrow> True)"

text \<open>
  Fixtures: the linear curve with \<open>k = 1\<close>, and the exponential curve with \<open>k = 1\<close>
  and rate 0, whose price is constant.
\<close>

definition linear_curve :: curve where
  "linear_curve = \<lparr>curveType = Linear, curve_k = 1, curve_n = 2, curve_r = 1 / 100\<rparr>"

definition flat_curve :: curve where
  "flat_curve = \<lparr>curveType = Exponential, curve_k = 1, curve_n = 2, curve_r = 0\<rparr>"

section \<open>Storage.saveData and Storage.loadData\<close>

text \<open>
  Modelled from the spec: \<^verbatim>\<open>lib/storage.js\<close>, \<^verbatim>\<open>lib/chain.js\<close> and the crypto
  functions of \<^verbatim>\<open>lib/keys.js\<close> are not among the sources. Section 4.2 of the
  specification describes \<^verbatim>\<open>saveData\<close> and \<^verbatim>\<open>loadData\<close>, section 6 the persisted
  record \<^verbatim>\<open>{id, encrypted, payload, wrappedKey?, registeringBlockHash}\<close>. The
  CryptoProvider (canonical encoding and decoding, digest, symmetric cipher, key
  wrapping) is a parameter; the fresh symmetric key is an argument of \<^verbatim>\<open>saveData\<close>; the
  registering block is named by its position in the log of write blocks.
\<close>

type_synonym bytes = string

record 'v provider =
  canonical :: "'v \<Rightarrow> bytes"
  decode :: "bytes \<Rightarrow> 'v option"
  digest :: "bytes \<Rightarrow> bytes"
  symEncrypt :: "bytes \<Rightarrow> bytes \<Rightarrow> bytes"
  symDecrypt :: "bytes \<Rightarrow> bytes \<Rightarrow> bytes option"
  wrapKey :: "bytes \<Rightarrow> bytes \<Rightarrow> bytes"
  unwrapKey :: "bytes \<Rightarrow> bytes \<Rightarrow> bytes option"

record keypair =
  publicKey :: bytes
  privateKey :: bytes

record stored_record =
  rec_id :: string
  encrypted :: bool
  payload :: bytes
  wrappedKey :: "bytes option"
  registeringBlock :: nat

record write_block =
  wb_op :: string
  wb_id :: string
  contentDigest :: bytes

record storage_state =
  records :: "string \<rightharpoonup> stored_record"
  writeLog :: "write_block list"

datatype storage_error = NotFound string | DecryptionError

text \<open>
  Modelled from the spec: serialize canonically; if \<open>encrypted\<close>, encrypt the
  canonical bytes with the fresh symmetric key and wrap that key with the public key;
  compute the digest over the plaintext canonical bytes; register it on the chain; persist
  the record under \<open>id\<close>.
\<close>

definition Storage_saveData ::
  "'v provider \<Rightarrow> keypair \<Rightarrow> bytes \<Rightarrow> string \<Rightarrow> 'v \<Rightarrow> bool \<Rightarrow> storage_state \<Rightarrow> storage_state" where
  "Storage_saveData P keys freshKey ident data enc st =
     (let plain = canonical P data;
          body = (if enc then symEncrypt P freshKey plain else plain);
          wrapped = (if enc then Some (wrapKey P (publicKey keys) freshKey) else None);
          blk = \<lparr>wb_op = ''write'', wb_id = ident, contentDigest = digest P plain\<rparr>;
          stored = \<lparr>rec_id = ident, encrypted = enc, payload = body, wrappedKey = wrapped,
                    registeringBlock = length (writeLog st)\<rparr>
      in st\<lparr>records := (records st)(ident \<mapsto> stored), writeLog := writeLog st @ [blk]\<rparr>)"

text \<open>
  Modelled from the spec: read the record, decrypt it with the private key if it is
  encrypted, return the decoded value; \<open>NotFound\<close> if absent, \<open>DecryptionError\<close> if
  the key material does not fit.
\<close>

definition Storage_loadData ::
  "'v provider \<Rightarrow> keypair \<Rightarrow> string \<Rightarrow> storage_state \<Rightarrow> storage_error + 'v" where
  "Storage_loadData P keys ident st =
     (case records st ident of
        None \<Rightarrow> Inl (NotFound ident)
      | Some stored \<Rightarrow>
          let plain =
                (if encrypted stored
                 then (case wrappedKey stored of
                         None \<Rightarrow> None
                       | Some wrapped \<Rightarrow>
                           (case unwrapKey P (privateKey keys) wrapped of
                              None \<Rightarrow> None
                            | Some symKey \<Rightarrow> symDecrypt P symKey (payload stored)))
                 else Some (payload stored))
          in (case plain of
                None \<Rightarrow> Inl DecryptionError
              | Some b \<Rightarrow> (case decode P b of None \<Rightarrow> Inl DecryptionError | Some v \<Rightarrow> Inr v)))"

text \<open>
  What the specification asks of the CryptoProvider for one key pair: decoding inverts
  the canonical encoding, decryption inverts encryption under the same key, unwrapping
  with the private key inverts wrapping with the public key, and a ciphertext is never
  its own plaintext.
\<close>

definition provider_ok :: "'v provider \<Rightarrow> keypair \<Rightarrow> bool" where
  "provider_ok P keys \<longleftrightarrow>
     (\<forall>v. decode P (canonical P v) = Some v) \<and>
     (\<forall>k b. symDecrypt P k (symEncrypt P k b) = Some b) \<and>
     (\<forall>k. unwrapKey P (privateKey keys) (wrapKey P (publicKey keys) k) = Some k) \<and>
     (\<forall>k b. symEncrypt P k b \<noteq> b)"

text \<open>
  A toy provider over strings for concrete runs: the encoding is the identity, the
  cipher tags the plaintext with a mark and the key, wrapping prefixes the symmetric key
  with the key-pair's key.
\<close>

definition strip_prefix :: "bytes \<Rightarrow> bytes \<Rightarrow> bytes option" where
  "strip_prefix p b = (if take (length p) b = p then Some (drop (length p) b) else None)"

definition toy_provider :: "string provider" where
  "toy_provider =
     \<lparr>canonical = (\<lambda>v. v), decode = Some, digest = (\<lambda>b. b),
      symEncrypt = (\<lambda>k b. CHR ''#'' # k @ b),
      symDecrypt = (\<lambda>k c. strip_prefix (CHR ''#'' # k) c),
      wrapKey = (\<lambda>pk k. pk @ k),
      unwrapKey = (\<lambda>sk w. strip_prefix sk w)\<rparr>"

definition toy_keys :: keypair where
  "toy_keys = \<lparr>publicKey = ''K'', privateKey = ''K''\<rparr>"

definition empty_storage :: storage_state where
  "empty_storage = \<lparr>records = Map.empty, writeLog = []\<rparr>"

chapter \<open>Properties\<close>

section \<open>Effects on storage\<close>

lemma saves_Cons:
  "saves (Get k # evs) = saves evs"
  "saves (Save k v enc # evs) = (k, v, enc) # saves evs"
  "saves (AddBlock d # evs) = saves evs"
  by (simp_all add: saves_def)

lemma readView_fold_perform:
  "readView (fold perform evs w) k
     = (if saved_at k evs = [] then readView w k else Some (last (saved_at k evs)))"
proof (induction evs arbitrary: w)
  case Nil
  then show ?case by (simp add: saved_at_def saves_def)
next
  case (Cons ev evs)
  show ?case
  proof (cases ev)
    case (Get k')
    then show ?thesis using Cons by (simp add: saved_at_def saves_Cons)
  next
    case (Save k' v enc)
    then show ?thesis using Cons
      by (simp add: saved_at_def saves_Cons saveData_def readView_def)
  next
    case (AddBlock d)
    then show ?thesis using Cons
      by (simp add: saved_at_def saves_Cons addBlock_def readView_def)
  qed
qed

lemma execute_readView:
  "readView (snd (execute proc w)) k
     = (if saved_at k (fst (proc (readView w))) = [] then readView w k
        else Some (last (saved_at k (fst (proc (readView w))))))"
  by (simp add: execute_def split_beta readView_fold_perform)

lemma saved_at_simps:
  "saved_at k [] = []"
  "saved_at k (Get k' # evs) = saved_at k evs"
  "saved_at k (AddBlock d # evs) = saved_at k evs"
  "saved_at k (Save k' v enc # evs) = (if k' = k then v # saved_at k evs else saved_at k evs)"
  by (simp_all add: saved_at_def saves_def)

lemma saved_at_append: "saved_at k (xs @ ys) = saved_at k xs @ saved_at k ys"
  by (simp add: saved_at_def saves_def)

section \<open>Token and PrivateToken\<close>

text \<open>
  The statements of this section are about which effects a procedure performs and with
  which keys, and about runs whose numbers are small integers or NaN; none of them
  depends on how a sum is rounded.
\<close>

lemmas token_defs = transferProc_def mintProc_def burnProc_def privateTransferProc_def
  privateMintProc_def privateBurnProc_def

text \<open>
  In every run, the block that the Token procedures append carries the type of
  \<^verbatim>\<open>tx\<close> (\<open>transfer\<close>, \<open>mint\<close>, \<open>burn\<close>), not the \<open>token-\<close> type written
  before the spread.
\<close>

lemma token_block_types:
  "map (\<lambda>b. obj_get b ''type'') (blocks (fst (transferProc reader e from to amount)))
     = (if \<not> num_le amount (Fin 0)
           \<and> \<not> num_lt (balance_or_zero (reader (balance_key from))) amount
        then [Some (Str ''transfer'')] else [])"
  "map (\<lambda>b. obj_get b ''type'') (blocks (fst (mintProc reader e acct amount h)))
     = (if \<not> num_le amount (Fin 0) then [Some (Str ''mint'')] else [])"
  "map (\<lambda>b. obj_get b ''type'') (blocks (fst (burnProc reader e acct amount h)))
     = (if \<not> num_le amount (Fin 0)
           \<and> \<not> num_lt (balance_or_zero (reader (balance_key acct))) amount
        then [Some (Str ''burn'')] else [])"
  by (simp_all add: token_defs Let_def blocks_def obj_lit_def obj_get_def)

text \<open>
  C1. The specification's scenario: alice holds 100 and transfers 40 to bob, who holds
  nothing. The procedure saves alice's balance as 60 and bob's as 40 and appends one
  block whose amount is 40. The block's type, however, is \<open>transfer\<close>: the literal
  \<^verbatim>\<open>{ type: 'token-transfer', ...tx }\<close> spreads \<^verbatim>\<open>tx\<close> after the type, and
  \<^verbatim>\<open>tx.type\<close> is \<open>transfer\<close>, so the spread replaces \<open>token-transfer\<close>.
\<close>

theorem transferProc_audit_block_type:
  "saves (fst (transferProc alice_view e ''alice'' ''bob'' (Fin 40)))
     = [(''balance:alice'', \<lparr>address = ''alice'', balance = Fin 60, updated = now e 0\<rparr>, False),
        (''balance:bob'', \<lparr>address = ''bob'', balance = Fin 40, updated = now e 1\<rparr>, False)] \<and>
   map (\<lambda>b. obj_get b ''amount'') (blocks (fst (transferProc alice_view e ''alice'' ''bob'' (Fin 40))))
     = [Some (Number (Fin 40))] \<and>
   map (\<lambda>b. obj_get b ''type'') (blocks (fst (transferProc alice_view e ''alice'' ''bob'' (Fin 40))))
     = [Some (Str ''transfer'')] \<and>
   map (\<lambda>b. obj_get b ''type'') (blocks (fst (transferProc alice_view e ''alice'' ''bob'' (Fin 40))))
     \<noteq> [Some (Str ''token-transfer'')]"
  by (simp add: transferProc_def Let_def alice_view_def balance_key_def balance_or_zero_def
      num_sub_def obj_lit_def obj_get_def blocks_def saves_def)

text \<open>
  C2, as amended. Each procedure succeeds exactly when its checks pass: the comparison
  \<^verbatim>\<open>amount <= 0\<close> is false and, for transfer and burn, the comparison
  \<^verbatim>\<open>balance < amount\<close> is false. A successful Token transfer reads the sender's
  balance and then the receiver's, writes a record for the sender under the sender's
  key and then one for the receiver under the receiver's key, both unencrypted, and
  appends one block. A successful Token mint or burn reads the balance of its one
  account, writes one unencrypted record for it under its key, and appends one block.
  A PrivateToken procedure fails exactly when its Token counterpart does, reads the
  same keys, writes the same records under the same keys but encrypted, and appends
  no block.
\<close>

theorem token_procedure_effects:
  "(\<not> isl (snd (transferProc reader e from to amount))
      \<longleftrightarrow> \<not> num_le amount (Fin 0)
          \<and> \<not> num_lt (balance_or_zero (reader (balance_key from))) amount) \<and>
   (\<not> isl (snd (transferProc reader e from to amount)) \<longrightarrow>
      gets (fst (transferProc reader e from to amount)) = [balance_key from, balance_key to] \<and>
      map (\<lambda>(k, v, enc). (k, address v, enc)) (saves (fst (transferProc reader e from to amount)))
        = [(balance_key from, from, False), (balance_key to, to, False)] \<and>
      length (blocks (fst (transferProc reader e from to amount))) = 1) \<and>
   (\<not> isl (snd (mintProc reader e acct amount h)) \<longleftrightarrow> \<not> num_le amount (Fin 0)) \<and>
   (\<not> isl (snd (mintProc reader e acct amount h)) \<longrightarrow>
      gets (fst (mintProc reader e acct amount h)) = [balance_key acct] \<and>
      map (\<lambda>(k, v, enc). (k, address v, enc)) (saves (fst (mintProc reader e acct amount h)))
        = [(balance_key acct, acct, False)] \<and>
      length (blocks (fst (mintProc reader e acct amount h))) = 1) \<and>
   (\<not> isl (snd (burnProc reader e acct amount h))
      \<longleftrightarrow> \<not> num_le amount (Fin 0)
          \<and> \<not> num_lt (balance_or_zero (reader (balance_key acct))) amount) \<and>
   (\<not> isl (snd (burnProc reader e acct amount h)) \<longrightarrow>
      gets (fst (burnProc reader e acct amount h)) = [balance_key acct] \<and>
      map (\<lambda>(k, v, enc). (k, address v, enc)) (saves (fst (burnProc reader e acct amount h)))
        = [(balance_key acct, acct, False)] \<and>
      length (blocks (fst (burnProc reader e acct amount h))) = 1) \<and>
   isl (snd (privateTransferProc reader e from to amount))
     = isl (snd (transferProc reader e from to amount)) \<and>
   gets (fst (privateTransferProc reader e from to amount))
     = gets (fst (transferProc reader e from to amount)) \<and>
   saves (fst (privateTransferProc reader e from to amount))
     = map (\<lambda>(k, v, enc). (k, v, True)) (saves (fst (transferProc reader e from to amount))) \<and>
   blocks (fst (privateTransferProc reader e from to amount)) = [] \<and>
   isl (snd (privateMintProc reader e acct amount h))
     = isl (snd (mintProc reader e acct amount h)) \<and>
   gets (fst (privateMintProc reader e acct amount h))
     = gets (fst (mintProc reader e acct amount h)) \<and>
   saves (fst (privateMintProc reader e acct amount h))
     = map (\<lambda>(k, v, enc). (k, v, True)) (saves (fst (mintProc reader e acct amount h))) \<and>
   blocks (fst (privateMintProc reader e acct amount h)) = [] \<and>
   isl (snd (privateBurnProc reader e acct amount h))
     = isl (snd (burnProc reader e acct amount h)) \<and>
   gets (fst (privateBurnProc reader e acct amount h))
     = gets (fst (burnProc reader e acct amount h)) \<and>
   saves (fst (privateBurnProc reader e acct amount h))
     = map (\<lambda>(k, v, enc). (k, v, True)) (saves (fst (burnProc reader e acct amount h))) \<and>
   blocks (fst (privateBurnProc reader e acct amount h)) = []"
proof -
  have transfer:
    "\<not> isl (snd (transferProc reader e from to amount))
      \<longleftrightarrow> \<not> num_le amount (Fin 0)
          \<and> \<not> num_lt (balance_or_zero (reader (balance_key from))) amount"
    "\<not> isl (snd (transferProc reader e from to amount)) \<longrightarrow>
      gets (fst (transferProc reader e from to amount)) = [balance_key from, balance_key to] \<and>
      map (\<lambda>(k, v, enc). (k, address v, enc)) (saves (fst (transferProc reader e from to amount)))
        = [(balance_key from, from, False), (balance_key to, to, False)] \<and>
      length (blocks (fst (transferProc reader e from to amount))) = 1"
    by (simp_all add: transferProc_def Let_def gets_def saves_def blocks_def)
  have mint:
    "\<not> isl (snd (mintProc reader e acct amount h)) \<longleftrightarrow> \<not> num_le amount (Fin 0)"
    "\<not> isl (snd (mintProc reader e acct amount h)) \<longrightarrow>
      gets (fst (mintProc reader e acct amount h)) = [balance_key acct] \<and>
      map (\<lambda>(k, v, enc). (k, address v, enc)) (saves (fst (mintProc reader e acct amount h)))
        = [(balance_key acct, acct, False)] \<and>
      length (blocks (fst (mintProc reader e acct amount h))) = 1"
    by (simp_all add: mintProc_def Let_def gets_def saves_def blocks_def)
  have burn:
    "\<not> isl (snd (burnProc reader e acct amount h))
      \<longleftrightarrow> \<not> num_le amount (Fin 0)
          \<and> \<not> num_lt (balance_or_zero (reader (balance_key acct))) amount"
    "\<not> isl (snd (burnProc reader e acct amount h)) \<longrightarrow>
      gets (fst (burnProc reader e acct amount h)) = [balance_key acct] \<and>
      map (\<lambda>(k, v, enc). (k, address v, enc)) (saves (fst (burnProc reader e acct amount h)))
        = [(balance_key acct, acct, False)] \<and>
      length (blocks (fst (burnProc reader e acct amount h))) = 1"
    by (simp_all add: burnProc_def Let_def gets_def saves_def blocks_def)
  have private_transfer:
    "isl (snd (privateTransferProc reader e from to amount))
       = isl (snd (transferProc reader e from to amount))"
    "gets (fst (privateTransferProc reader e from to amount))
       = gets (fst (transferProc reader e from to amount))"
    "saves (fst (privateTransferProc reader e from to amount))
       = map (\<lambda>(k, v, enc). (k, v, True)) (saves (fst (transferProc reader e from to amount)))"
    "blocks (fst (privateTransferProc reader e from to amount)) = []"
    by (simp_all add: transferProc_def privateTransferProc_def Let_def gets_def saves_def blocks_def)
  have private_mint:
    "isl (snd (privateMintProc reader e acct amount h))
       = isl (snd (mintProc reader e acct amount h))"
    "gets (fst (privateMintProc reader e acct amount h))
       = gets (fst (mintProc reader e acct amount h))"
    "saves (fst (privateMintProc reader e acct amount h))
       = map (\<lambda>(k, v, enc). (k, v, True)) (saves (fst (mintProc reader e acct amount h)))"
    "blocks (fst (privateMintProc reader e acct amount h)) = []"
    by (simp_all add: mintProc_def privateMintProc_def Let_def gets_def saves_def blocks_def)
  have private_burn:
    "isl (snd (privateBurnProc reader e acct amount h))
       = isl (snd (burnProc reader e acct amount h))"
    "gets (fst (privateBurnProc reader e acct amount h))
       = gets (fst (burnProc reader e acct amount h))"
    "saves (fst (privateBurnProc reader e acct amount h))
       = map (\<lambda>(k, v, enc). (k, v, True)) (saves (fst (burnProc reader e acct amount h)))"
    "blocks (fst (privateBurnProc reader e acct amount h)) = []"
    by (simp_all add: burnProc_def privateBurnProc_def Let_def gets_def saves_def blocks_def)
  show ?thesis
    by (intro conjI transfer mint burn private_transfer private_mint private_burn)
qed

text \<open>
  All six procedures succeed for alice, who holds 100, and the amount 40, with the
  reads and writes above.
\<close>

theorem token_procedure_effects_witness:
  "\<not> isl (snd (transferProc alice_view env0 ''alice'' ''bob'' (Fin 40))) \<and>
   gets (fst (transferProc alice_view env0 ''alice'' ''bob'' (Fin 40)))
     = [''balance:alice'', ''balance:bob''] \<and>
   map (\<lambda>(k, v, enc). (k, address v, enc))
       (saves (fst (transferProc alice_view env0 ''alice'' ''bob'' (Fin 40))))
     = [(''balance:alice'', ''alice'', False), (''balance:bob'', ''bob'', False)] \<and>
   length (blocks (fst (transferProc alice_view env0 ''alice'' ''bob'' (Fin 40)))) = 1 \<and>
   \<not> isl (snd (mintProc alice_view env0 ''alice'' (Fin 40) Null)) \<and>
   gets (fst (mintProc alice_view env0 ''alice'' (Fin 40) Null)) = [''balance:alice''] \<and>
   length (blocks (fst (mintProc alice_view env0 ''alice'' (Fin 40) Null))) = 1 \<and>
   \<not> isl (snd (burnProc alice_view env0 ''alice'' (Fin 40) Null)) \<and>
   map (\<lambda>(k, v, enc). (k, address v, enc))
       (saves (fst (burnProc alice_view env0 ''alice'' (Fin 40) Null)))
     = [(''balance:alice'', ''alice'', False)] \<and>
   \<not> isl (snd (privateTransferProc alice_view env0 ''alice'' ''bob'' (Fin 40))) \<and>
   saves (fst (privateTransferProc alice_view env0 ''alice'' ''bob'' (Fin 40)))
     = [(''balance:alice'', \<lparr>address = ''alice'', balance = Fin 60, updated = 1000\<rparr>, True),
        (''balance:bob'', \<lparr>address = ''bob'', balance = Fin 40, updated = 1001\<rparr>, True)] \<and>
   blocks (fst (privateTransferProc alice_view env0 ''alice'' ''bob'' (Fin 40))) = [] \<and>
   \<not> isl (snd (privateMintProc alice_view env0 ''alice'' (Fin 40) Null)) \<and>
   saves (fst (privateMintProc alice_view env0 ''alice'' (Fin 40) Null))
     = [(''balance:alice'', \<lparr>address = ''alice'', balance = Fin 140, updated = 1000\<rparr>, True)] \<and>
   \<not> isl (snd (privateBurnProc alice_view env0 ''alice'' (Fin 40) Null)) \<and>
   saves (fst (privateBurnProc alice_view env0 ''alice'' (Fin 40) Null))
     = [(''balance:alice'', \<lparr>address = ''alice'', balance = Fin 60, updated = 1000\<rparr>, True)]"
  using token_procedure_effects [of alice_view env0 "''alice''" "''bob''" "Fin 40" "''alice''" Null]
  by (simp add: token_defs Let_def alice_view_def env0_def balance_key_def balance_or_zero_def
      num_sub_def gets_def saves_def blocks_def)

text \<open>
  The claim as stated fails: a successful mint reads one balance and writes one, and a
  successful PrivateToken transfer appends no block.
\<close>

theorem mint_single_read_counterexample:
  "\<not> isl (snd (mintProc alice_view env0 ''alice'' (Fin 40) Null)) \<and>
   length (gets (fst (mintProc alice_view env0 ''alice'' (Fin 40) Null))) \<noteq> 2 \<and>
   length (saves (fst (mintProc alice_view env0 ''alice'' (Fin 40) Null))) \<noteq> 2 \<and>
   \<not> isl (snd (privateTransferProc alice_view env0 ''alice'' ''bob'' (Fin 40))) \<and>
   length (blocks (fst (privateTransferProc alice_view env0 ''alice'' ''bob'' (Fin 40)))) \<noteq> 1"
  by (simp add: token_defs Let_def alice_view_def balance_key_def balance_or_zero_def
      gets_def saves_def blocks_def)

text \<open>
  The failures of the two transfer procedures. They throw
  \<open>Transfer amount must be positive\<close> exactly when \<^verbatim>\<open>amount <= 0\<close> holds, and
  otherwise \<open>Insufficient balance\<close> exactly when \<^verbatim>\<open>balance < amount\<close> holds, the
  balance being 0 when no record is stored; they throw in no other case. A run that
  throws has saved nothing and appended nothing, so that \<open>execute\<close> leaves storage and
  chain as they were.
\<close>

lemma transferProc_failure_modes:
  "snd (transferProc reader e from to amount) = Inl (Error ''Transfer amount must be positive'')
     \<longleftrightarrow> num_le amount (Fin 0)"
  "\<not> num_le amount (Fin 0) \<Longrightarrow>
     snd (transferProc reader e from to amount)
       = Inl (ErrorWith ''Insufficient balance. Available: ''
                (balance_or_zero (reader (balance_key from))))
     \<longleftrightarrow> num_lt (balance_or_zero (reader (balance_key from))) amount"
  "isl (snd (transferProc reader e from to amount))
     \<longleftrightarrow> num_le amount (Fin 0) \<or> num_lt (balance_or_zero (reader (balance_key from))) amount"
  "isl (snd (transferProc reader e from to amount)) \<Longrightarrow>
     saves (fst (transferProc reader e from to amount)) = [] \<and>
     blocks (fst (transferProc reader e from to amount)) = []"
  "isl (fst (execute (\<lambda>r. transferProc r e from to amount) w)) \<Longrightarrow>
     snd (execute (\<lambda>r. transferProc r e from to amount) w) = w"
  by (simp_all add: transferProc_def Let_def saves_def blocks_def execute_def split: if_splits)

lemma privateTransferProc_failure_modes:
  "snd (privateTransferProc reader e from to amount) = Inl (Error ''Transfer amount must be positive'')
     \<longleftrightarrow> num_le amount (Fin 0)"
  "\<not> num_le amount (Fin 0) \<Longrightarrow>
     snd (privateTransferProc reader e from to amount)
       = Inl (ErrorWith ''Insufficient balance. Available: ''
                (balance_or_zero (reader (balance_key from))))
     \<longleftrightarrow> num_lt (balance_or_zero (reader (balance_key from))) amount"
  "isl (snd (privateTransferProc reader e from to amount))
     \<longleftrightarrow> num_le amount (Fin 0) \<or> num_lt (balance_or_zero (reader (balance_key from))) amount"
  "isl (snd (privateTransferProc reader e from to amount)) \<Longrightarrow>
     saves (fst (privateTransferProc reader e from to amount)) = [] \<and>
     blocks (fst (privateTransferProc reader e from to amount)) = []"
  "isl (fst (execute (\<lambda>r. privateTransferProc r e from to amount) w)) \<Longrightarrow>
     snd (execute (\<lambda>r. privateTransferProc r e from to amount) w) = w"
  by (simp_all add: privateTransferProc_def Let_def saves_def blocks_def execute_def split: if_splits)

text \<open>
  NaN passes both checks whatever the sender holds: every transfer of the amount NaN
  returns normally and saves the balance NaN for both accounts.
\<close>

lemma num_nan_right:
  "num_add x NaN = NaN" "num_sub x NaN = NaN" "\<not> num_lt x NaN"
  by (cases x; simp add: num_sub_def)+

lemma transferProc_nan_accepted:
  "snd (transferProc reader e from to NaN)
     = Inr (TransferOk (''tx-'' @ show_nat (now e 3) @ ''-'' @ rnd e) NaN NaN)"
  "map (\<lambda>(k, v, enc). (k, balance v)) (saves (fst (transferProc reader e from to NaN)))
     = [(balance_key from, NaN), (balance_key to, NaN)]"
  "snd (privateTransferProc reader e from to NaN) = Inr (PrivateTransferOk NaN NaN)"
  "map (\<lambda>(k, v, enc). (k, balance v)) (saves (fst (privateTransferProc reader e from to NaN)))
     = [(balance_key from, NaN), (balance_key to, NaN)]"
  by (simp_all add: transferProc_def privateTransferProc_def Let_def num_nan_right saves_def)

text \<open>
  C3. The claim does not hold of the program for an amount that is NaN, which is also
  what an omitted amount amounts to. NaN is not positive, yet \<^verbatim>\<open>amount <= 0\<close> and
  \<^verbatim>\<open>balance < amount\<close> are both false, so neither error is thrown. With alice
  holding 100, the transfer procedures of Token and of PrivateToken return normally,
  save the balance NaN for alice and for bob, and the Token procedure appends a block;
  after \<open>execute\<close> alice's stored balance of 100 is lost.
\<close>

theorem transferProc_accepts_nan:
  "\<not> num_lt (Fin 0) NaN \<and>
   snd (transferProc (readView alice_world) e ''alice'' ''bob'' NaN)
     = Inr (TransferOk (''tx-'' @ show_nat (now e 3) @ ''-'' @ rnd e) NaN NaN) \<and>
   saves (fst (transferProc (readView alice_world) e ''alice'' ''bob'' NaN))
     = [(''balance:alice'', \<lparr>address = ''alice'', balance = NaN, updated = now e 0\<rparr>, False),
        (''balance:bob'', \<lparr>address = ''bob'', balance = NaN, updated = now e 1\<rparr>, False)] \<and>
   length (blocks (fst (transferProc (readView alice_world) e ''alice'' ''bob'' NaN))) = 1 \<and>
   readView alice_world ''balance:alice''
     = Some \<lparr>address = ''alice'', balance = Fin 100, updated = 0\<rparr> \<and>
   readView (snd (execute (\<lambda>r. transferProc r e ''alice'' ''bob'' NaN) alice_world)) ''balance:alice''
     = Some \<lparr>address = ''alice'', balance = NaN, updated = now e 0\<rparr> \<and>
   snd (execute (\<lambda>r. transferProc r e ''alice'' ''bob'' NaN) alice_world) \<noteq> alice_world \<and>
   snd (privateTransferProc (readView alice_world) e ''alice'' ''bob'' NaN)
     = Inr (PrivateTransferOk NaN NaN) \<and>
   saves (fst (privateTransferProc (readView alice_world) e ''alice'' ''bob'' NaN))
     = [(''balance:alice'', \<lparr>address = ''alice'', balance = NaN, updated = now e 0\<rparr>, True),
        (''balance:bob'', \<lparr>address = ''bob'', balance = NaN, updated = now e 1\<rparr>, True)] \<and>
   readView (snd (execute (\<lambda>r. privateTransferProc r e ''alice'' ''bob'' NaN) alice_world)) ''balance:alice''
     = Some \<lparr>address = ''alice'', balance = NaN, updated = now e 0\<rparr>"
proof -
  have bal: "readView alice_world ''balance:alice''
      = Some \<lparr>address = ''alice'', balance = Fin 100, updated = 0\<rparr>"
    "readView alice_world ''balance:bob'' = None"
    by (simp_all add: readView_def alice_world_def)
  have run: "transferProc (readView alice_world) e ''alice'' ''bob'' NaN
      = ([Get ''balance:alice'', Get ''balance:bob'',
          Save ''balance:alice'' \<lparr>address = ''alice'', balance = NaN, updated = now e 0\<rparr> False,
          Save ''balance:bob'' \<lparr>address = ''bob'', balance = NaN, updated = now e 1\<rparr> False,
          AddBlock (obj_lit [(''type'', Str ''token-transfer''), (''type'', Str ''transfer''),
            (''from'', Str ''alice''), (''to'', Str ''bob''), (''amount'', Number NaN),
            (''timestamp'', Num (int (now e 2))),
            (''txId'', Str (''tx-'' @ show_nat (now e 3) @ ''-'' @ rnd e))])],
         Inr (TransferOk (''tx-'' @ show_nat (now e 3) @ ''-'' @ rnd e) NaN NaN))"
    by (simp add: transferProc_def Let_def balance_key_def bal balance_or_zero_def num_sub_def)
  have private_run: "privateTransferProc (readView alice_world) e ''alice'' ''bob'' NaN
      = ([Get ''balance:alice'', Get ''balance:bob'',
          Save ''balance:alice'' \<lparr>address = ''alice'', balance = NaN, updated = now e 0\<rparr> True,
          Save ''balance:bob'' \<lparr>address = ''bob'', balance = NaN, updated = now e 1\<rparr> True],
         Inr (PrivateTransferOk NaN NaN))"
    by (simp add: privateTransferProc_def Let_def balance_key_def bal balance_or_zero_def
        num_sub_def)
  have stored: "readView alice_world ''balance:alice''
      = Some \<lparr>address = ''alice'', balance = Fin 100, updated = 0\<rparr>"
    using bal by simp
  have after:
    "readView (snd (execute (\<lambda>r. transferProc r e ''alice'' ''bob'' NaN) alice_world)) ''balance:alice''
       = Some \<lparr>address = ''alice'', balance = NaN, updated = now e 0\<rparr>"
    "readView (snd (execute (\<lambda>r. privateTransferProc r e ''alice'' ''bob'' NaN) alice_world)) ''balance:alice''
       = Some \<lparr>address = ''alice'', balance = NaN, updated = now e 0\<rparr>"
    by (simp_all add: execute_readView run private_run saved_at_simps)
  have changed: "snd (execute (\<lambda>r. transferProc r e ''alice'' ''bob'' NaN) alice_world) \<noteq> alice_world"
    using after(1) stored by auto
  show ?thesis
    using after changed stored
    by (simp add: run private_run saves_def blocks_def)
qed

section \<open>WishList\<close>

lemma findIndex_SomeD: "findIndex P xs = Some i \<Longrightarrow> i < length xs \<and> P (xs ! i)"
proof (induction xs arbitrary: i)
  case Nil
  then show ?case by simp
next
  case (Cons x xs)
  then show ?case by (auto split: if_splits)
qed

text \<open>
  C7, as amended. The reserve-item procedure fails exactly when a required argument is
  empty, or the owner's wish list is absent, or no item of the list has the item id, or
  the (first) item with that id has a status other than \<open>available\<close> or a truthy
  \<open>reservedBy\<close>, or the reserver is the owner. On success it saves the owner's list
  with that item set to \<open>reserved\<close>, \<open>reservedBy\<close> and \<open>reservedAt\<close> recorded and
  every other item unchanged, saves the reserver's record with one entry for the item
  appended, and appends one block of type \<open>wishlist-item-reserved\<close>.
\<close>

theorem reserveItemProc_outcome:
  "(isl (snd (reserveItemProc reader e ownerId itemId rb)) \<longleftrightarrow>
      ownerId = [] \<or> itemId = [] \<or> rb = [] \<or>
      (case wishlistOf reader ownerId of
         None \<Rightarrow> True
       | Some wl \<Rightarrow>
          (case findIndex (\<lambda>it. item_id it = itemId) (items wl) of
             None \<Rightarrow> True
           | Some i \<Rightarrow> status (items wl ! i) \<noteq> ''available'' \<or> truthy (reservedBy (items wl ! i))
                        \<or> ownerId = rb))) \<and>
   (\<not> isl (snd (reserveItemProc reader e ownerId itemId rb)) \<longrightarrow>
      (\<exists>wl i wl' x'.
         wishlistOf reader ownerId = Some wl \<and>
         findIndex (\<lambda>it. item_id it = itemId) (items wl) = Some i \<and>
         saves (fst (reserveItemProc reader e ownerId itemId rb))
           = [(wishlist_key ownerId, WishList wl', False), (reservations_key rb, Reservations x', False)] \<and>
         length (items wl') = length (items wl) \<and>
         (\<forall>j < length (items wl). j \<noteq> i \<longrightarrow> items wl' ! j = items wl ! j) \<and>
         items wl' ! i = (items wl ! i)\<lparr>status := ''reserved'', reservedBy := Some rb,
                                          reservedAt := Some (now e 0)\<rparr> \<and>
         rs_userId x' = (case reservationsOf reader rb of None \<Rightarrow> rb | Some x \<Rightarrow> rs_userId x) \<and>
         butlast (reservations x')
           = (case reservationsOf reader rb of None \<Rightarrow> [] | Some x \<Rightarrow> reservations x) \<and>
         entry_itemId (last (reservations x')) = itemId \<and>
         entry_ownerId (last (reservations x')) = ownerId \<and>
         entry_status (last (reservations x')) = ''reserved'' \<and>
         map (\<lambda>b. obj_get b ''type'') (blocks (fst (reserveItemProc reader e ownerId itemId rb)))
           = [Some (Str ''wishlist-item-reserved'')]))"
proof -
  let ?run = "reserveItemProc reader e ownerId itemId rb"
  have fails: "isl (snd ?run) \<longleftrightarrow>
      ownerId = [] \<or> itemId = [] \<or> rb = [] \<or>
      (case wishlistOf reader ownerId of
         None \<Rightarrow> True
       | Some wl \<Rightarrow>
          (case findIndex (\<lambda>it. item_id it = itemId) (items wl) of
             None \<Rightarrow> True
           | Some i \<Rightarrow> status (items wl ! i) \<noteq> ''available'' \<or> truthy (reservedBy (items wl ! i))
                        \<or> ownerId = rb))"
    by (simp add: reserveItemProc_def Let_def split: option.splits)
  have succeeds: "\<exists>wl i wl' x'.
         wishlistOf reader ownerId = Some wl \<and>
         findIndex (\<lambda>it. item_id it = itemId) (items wl) = Some i \<and>
         saves (fst ?run)
           = [(wishlist_key ownerId, WishList wl', False), (reservations_key rb, Reservations x', False)] \<and>
         length (items wl') = length (items wl) \<and>
         (\<forall>j < length (items wl). j \<noteq> i \<longrightarrow> items wl' ! j = items wl ! j) \<and>
         items wl' ! i = (items wl ! i)\<lparr>status := ''reserved'', reservedBy := Some rb,
                                          reservedAt := Some (now e 0)\<rparr> \<and>
         rs_userId x' = (case reservationsOf reader rb of None \<Rightarrow> rb | Some x \<Rightarrow> rs_userId x) \<and>
         butlast (reservations x')
           = (case reservationsOf reader rb of None \<Rightarrow> [] | Some x \<Rightarrow> reservations x) \<and>
         entry_itemId (last (reservations x')) = itemId \<and>
         entry_ownerId (last (reservations x')) = ownerId \<and>
         entry_status (last (reservations x')) = ''reserved'' \<and>
         map (\<lambda>b. obj_get b ''type'') (blocks (fst ?run)) = [Some (Str ''wishlist-item-reserved'')]"
    if ok: "\<not> isl (snd ?run)"
  proof -
    from ok fails obtain wl i where wl: "wishlistOf reader ownerId = Some wl"
      and i: "findIndex (\<lambda>it. item_id it = itemId) (items wl) = Some i"
      and rest: "ownerId \<noteq> []" "itemId \<noteq> []" "rb \<noteq> []" "status (items wl ! i) = ''available''"
        "\<not> truthy (reservedBy (items wl ! i))" "ownerId \<noteq> rb"
      by (auto split: option.splits)
    from findIndex_SomeD [OF i] have bound: "i < length (items wl)"
      by simp
    show ?thesis
      using wl i rest bound
      by (simp add: reserveItemProc_def Let_def saves_def blocks_def obj_lit_def obj_get_def
          split: option.splits)
  qed
  from fails succeeds show ?thesis by blast
qed

text \<open>Bob reserves alice's available item: the run succeeds and logs the reservation.\<close>

theorem reserveItemProc_outcome_witness:
  "\<not> isl (snd (reserveItemProc fresh_view env0 ''alice'' ''item-1'' ''bob'')) \<and>
   (\<exists>wl'. hd (saves (fst (reserveItemProc fresh_view env0 ''alice'' ''item-1'' ''bob'')))
            = (''wishlist:alice'', WishList wl', False) \<and>
          status (items wl' ! 0) = ''reserved'' \<and> reservedBy (items wl' ! 0) = Some ''bob'') \<and>
   map (\<lambda>b. obj_get b ''type'') (blocks (fst (reserveItemProc fresh_view env0 ''alice'' ''item-1'' ''bob'')))
     = [Some (Str ''wishlist-item-reserved'')]"
proof -
  have ok: "\<not> isl (snd (reserveItemProc fresh_view env0 ''alice'' ''item-1'' ''bob''))"
    by (simp add: reserveItemProc_def Let_def fresh_view_def alice_list_def macbook_def truthy_def)
  have idx: "findIndex (\<lambda>it. item_id it = ''item-1'') (items alice_list) = Some i \<longleftrightarrow> i = 0" for i
    by (auto simp: alice_list_def macbook_def)
  note run = reserveItemProc_outcome [of fresh_view env0 "''alice''" "''item-1''" "''bob''",
      THEN conjunct2, THEN mp, OF ok]
  then obtain wl i wl' x' where
    wl: "wishlistOf fresh_view ''alice'' = Some wl"
    and i: "findIndex (\<lambda>it. item_id it = ''item-1'') (items wl) = Some i"
    and sv: "saves (fst (reserveItemProc fresh_view env0 ''alice'' ''item-1'' ''bob''))
           = [(wishlist_key ''alice'', WishList wl', False), (reservations_key ''bob'', Reservations x', False)]"
    and it: "items wl' ! i = (items wl ! i)\<lparr>status := ''reserved'', reservedBy := Some ''bob'',
                                          reservedAt := Some (now env0 0)\<rparr>"
    and bl: "map (\<lambda>b. obj_get b ''type'') (blocks (fst (reserveItemProc fresh_view env0 ''alice'' ''item-1'' ''bob'')))
           = [Some (Str ''wishlist-item-reserved'')]"
    by (elim exE conjE)
  from wl have "wl = alice_list"
    by (simp add: fresh_view_def)
  with i idx have "i = 0"
    by simp
  with sv it ok bl show ?thesis
    by (simp add: wishlist_key_def)
qed

text \<open>
  The claim as stated fails: with an empty \<open>reservedBy\<close> the procedure fails, although
  alice's list is stored, the item is in it, available and unreserved, and the
  reserver is not the owner.
\<close>

theorem reserveItemProc_missing_field_counterexample:
  "isl (snd (reserveItemProc fresh_view env0 ''alice'' ''item-1'' [])) \<and>
   wishlistOf fresh_view ''alice'' = Some alice_list \<and>
   findIndex (\<lambda>it. item_id it = ''item-1'') (items alice_list) = Some 0 \<and>
   status (items alice_list ! 0) = ''available'' \<and>
   reservedBy (items alice_list ! 0) = None \<and>
   ''alice'' \<noteq> ''''"
  by (simp add: reserveItemProc_def fresh_view_def alice_list_def macbook_def)



section \<open>ChatAgent\<close>

lemma chat_keys_distinct:
  "thread_key t \<noteq> user_threads_key u" "user_threads_key u \<noteq> thread_key t"
  by (simp_all add: thread_key_def user_threads_key_def)

text \<open>
  C8. When no thread record is stored under the thread id, send-message fails only on
  its argument checks (an empty field or a role outside user, assistant, system), never
  because the thread is missing; with valid arguments it succeeds, stores a thread that
  is owned by the caller and holds exactly the new message, and afterwards the caller's
  stored thread list contains the thread id. The error
  \<open>Thread does not belong to this user\<close> is raised only if a thread is stored whose
  \<open>userId\<close> differs from the caller's.
\<close>

theorem sendMessageProc_new_thread:
  "(threadOf (chat_view_of (readView w)) threadId = None \<longrightarrow>
      (isl (fst (execute (\<lambda>r. sendMessageProc (chat_view_of r) e threadId userId role' content' md) w))
         \<longleftrightarrow> threadId = [] \<or> userId = [] \<or> role' = [] \<or> content' = [] \<or>
             role' \<notin> {''user'', ''assistant'', ''system''}) \<and>
      (\<forall>err. fst (execute (\<lambda>r. sendMessageProc (chat_view_of r) e threadId userId role' content' md) w)
                = Inl err \<longrightarrow>
             err = Error ''Missing required fields: threadId, userId, role, content'' \<or>
             err = Error ''Invalid role. Must be: user, assistant, or system'') \<and>
      (\<not> isl (fst (execute (\<lambda>r. sendMessageProc (chat_view_of r) e threadId userId role' content' md) w))
         \<longrightarrow>
         threadOf (chat_view_of (readView
             (snd (execute (\<lambda>r. sendMessageProc (chat_view_of r) e threadId userId role' content' md) w))))
           threadId
           = Some \<lparr>th_threadId = threadId, th_userId = userId,
                   messages = [\<lparr>msg_id = ''msg-'' @ show_nat (now e 2) @ ''-'' @ rnd e,
                                msg_threadId = threadId, role = role', content = content',
                                timestamp = now e 3, msg_metadata = md\<rparr>],
                   th_createdAt = now e 0, th_updatedAt = now e 4, th_context = []\<rparr> \<and>
         (\<exists>u. userThreadsOf (chat_view_of (readView
                  (snd (execute (\<lambda>r. sendMessageProc (chat_view_of r) e threadId userId role' content' md) w))))
                userId = Some u \<and>
              threadId \<in> set (threads u)))) \<and>
   (fst (execute (\<lambda>r. sendMessageProc (chat_view_of r) e threadId userId role' content' md) w)
      = Inl (Error ''Thread does not belong to this user'') \<longrightarrow>
    (\<exists>t. threadOf (chat_view_of (readView w)) threadId = Some t \<and> th_userId t \<noteq> userId))"
proof -
  let ?view = "chat_view_of (readView w)"
  let ?proc = "\<lambda>r. sendMessageProc (chat_view_of r) e threadId userId role' content' md"
  let ?run = "execute ?proc w"
  have out: "fst ?run = snd (sendMessageProc ?view e threadId userId role' content' md)"
    by (simp add: execute_def split_beta)
  have owner: "\<exists>t. threadOf ?view threadId = Some t \<and> th_userId t \<noteq> userId"
    if "fst ?run = Inl (Error ''Thread does not belong to this user'')"
    using that unfolding out
    by (auto simp: sendMessageProc_def Let_def split: if_splits option.splits)
  have absent: "(isl (fst ?run)
         \<longleftrightarrow> threadId = [] \<or> userId = [] \<or> role' = [] \<or> content' = [] \<or>
             role' \<notin> {''user'', ''assistant'', ''system''}) \<and>
      (\<forall>err. fst ?run = Inl err \<longrightarrow>
             err = Error ''Missing required fields: threadId, userId, role, content'' \<or>
             err = Error ''Invalid role. Must be: user, assistant, or system'')"
    if "threadOf ?view threadId = None"
    using that unfolding out
    by (auto simp: sendMessageProc_def Let_def split: if_splits)
  have created: "threadOf (chat_view_of (readView (snd ?run))) threadId
           = Some \<lparr>th_threadId = threadId, th_userId = userId,
                   messages = [\<lparr>msg_id = ''msg-'' @ show_nat (now e 2) @ ''-'' @ rnd e,
                                msg_threadId = threadId, role = role', content = content',
                                timestamp = now e 3, msg_metadata = md\<rparr>],
                   th_createdAt = now e 0, th_updatedAt = now e 4, th_context = []\<rparr> \<and>
         (\<exists>u. userThreadsOf (chat_view_of (readView (snd ?run))) userId = Some u \<and>
              threadId \<in> set (threads u))"
    if none: "threadOf ?view threadId = None" and ok: "\<not> isl (fst ?run)"
  proof -
    from ok absent [OF none] have valid: "threadId \<noteq> []" "userId \<noteq> []" "role' \<noteq> []" "content' \<noteq> []"
      "role' \<in> {''user'', ''assistant'', ''system''}"
      by auto
    have th: "saved_at (thread_key threadId) (fst (?proc (readView w)))
                = [Thread \<lparr>th_threadId = threadId, th_userId = userId,
                   messages = [\<lparr>msg_id = ''msg-'' @ show_nat (now e 2) @ ''-'' @ rnd e,
                                msg_threadId = threadId, role = role', content = content',
                                timestamp = now e 3, msg_metadata = md\<rparr>],
                   th_createdAt = now e 0, th_updatedAt = now e 4, th_context = []\<rparr>]"
      using none valid chat_keys_distinct
      by (auto simp: sendMessageProc_def Let_def saved_at_simps saved_at_append)
    have first: ?thesis if "userThreadsOf ?view userId = None"
      using that none valid chat_keys_distinct th
      apply (simp add: chat_view_of_def execute_readView)
      apply (auto simp: sendMessageProc_def Let_def saved_at_simps saved_at_append chat_view_of_def)
      done
    have later: ?thesis if "userThreadsOf ?view userId = Some u" for u
      using that none valid chat_keys_distinct th
      apply (simp add: chat_view_of_def execute_readView)
      apply (auto simp: sendMessageProc_def Let_def saved_at_simps saved_at_append chat_view_of_def
          split: option.splits chat_value.splits)
      done
    from first later show ?thesis
      by (cases "userThreadsOf ?view userId") auto
  qed
  from owner absent created show ?thesis
    by blast
qed

text \<open>
  On an empty storage user \<open>u1\<close> opens thread \<open>t1\<close>; on a storage where \<open>t1\<close>
  belongs to \<open>u2\<close> the same call is refused.
\<close>

theorem sendMessageProc_new_thread_witness:
  "threadOf (chat_view_of (readView empty_world)) ''t1'' = None \<and>
   \<not> isl (fst (execute (\<lambda>r. sendMessageProc (chat_view_of r) env0 ''t1'' ''u1'' ''user'' ''Hello'' []) empty_world)) \<and>
   (\<exists>u. userThreadsOf (chat_view_of (readView
            (snd (execute (\<lambda>r. sendMessageProc (chat_view_of r) env0 ''t1'' ''u1'' ''user'' ''Hello'' []) empty_world))))
          ''u1'' = Some u \<and> ''t1'' \<in> set (threads u)) \<and>
   fst (execute (\<lambda>r. sendMessageProc (chat_view_of r) env0 ''t1'' ''u1'' ''user'' ''Hello'' []) thread1_world)
     = Inl (Error ''Thread does not belong to this user'') \<and>
   (\<exists>t. threadOf (chat_view_of (readView thread1_world)) ''t1'' = Some t \<and> th_userId t \<noteq> ''u1'')"
proof -
  have none: "threadOf (chat_view_of (readView empty_world)) ''t1'' = None"
    by (simp add: chat_view_of_def readView_def empty_world_def)
  have ok: "\<not> isl (fst (execute (\<lambda>r. sendMessageProc (chat_view_of r) env0 ''t1'' ''u1'' ''user'' ''Hello'' []) empty_world))"
    by (simp add: execute_def split_beta sendMessageProc_def Let_def chat_view_of_def readView_def
        empty_world_def)
  have refused: "fst (execute (\<lambda>r. sendMessageProc (chat_view_of r) env0 ''t1'' ''u1'' ''user'' ''Hello'' []) thread1_world)
     = Inl (Error ''Thread does not belong to this user'')"
    by (simp add: execute_def split_beta sendMessageProc_def Let_def chat_view_of_def readView_def
        thread1_world_def thread1_def thread_key_def)
  from sendMessageProc_new_thread [of empty_world "''t1''" env0 "''u1''" "''user''" "''Hello''" "[]"]
    none ok
  have registered: "\<exists>u. userThreadsOf (chat_view_of (readView
            (snd (execute (\<lambda>r. sendMessageProc (chat_view_of r) env0 ''t1'' ''u1'' ''user'' ''Hello'' []) empty_world))))
          ''u1'' = Some u \<and> ''t1'' \<in> set (threads u)"
    by blast
  from sendMessageProc_new_thread [of thread1_world "''t1''" env0 "''u1''" "''user''" "''Hello''" "[]"]
    refused
  have "\<exists>t. threadOf (chat_view_of (readView thread1_world)) ''t1'' = Some t \<and> th_userId t \<noteq> ''u1''"
    by blast
  with none ok registered refused show ?thesis
    by blast
qed

lemma checkMessages_None_iff:
  "checkMessages seen ms = None \<longleftrightarrow>
     distinct (map msg_id ms) \<and> set (map msg_id ms) \<inter> seen = {} \<and>
     (\<forall>m \<in> set ms. timestamp m \<noteq> 0 \<and> role m \<noteq> [] \<and> content m \<noteq> [])"
proof (induction ms arbitrary: seen)
  case Nil
  then show ?case by simp
next
  case (Cons m ms)
  then show ?case by auto
qed

lemma distinct_map_insort_key:
  "distinct (map g (insort_key f x xs)) \<longleftrightarrow> g x \<notin> g ` set xs \<and> distinct (map g xs)"
  by (induction xs) (auto simp: set_insort_key)

lemma distinct_map_sort_key: "distinct (map g (sort_key f xs)) \<longleftrightarrow> distinct (map g xs)"
  by (induction xs) (simp_all add: sort_key_def distinct_map_insort_key flip: sort_key_def)

lemma js_slice_last:
  "0 < n \<Longrightarrow> js_slice (- n) xs = drop (length xs - nat n) xs"
  by (simp add: js_slice_def nat_diff_distrib')

text \<open>
  C10, as amended. For a stored thread that is requested by its owner with non-empty
  thread and user ids, get-conversation throws exactly when two messages share an id or
  some message has a falsy timestamp (0), role or content (empty). Otherwise it returns
  the messages sorted (stably) in nondecreasing timestamp order, cut to the last
  \<open>limit\<close> entries when a positive limit is given, and \<open>messageCount\<close> is the
  number of stored messages whatever the limit.
\<close>

theorem getConversationProc_outcome:
  assumes stored: "threadOf reader threadId = Some t"
    and args: "threadId \<noteq> [] \<and> userId \<noteq> []"
    and owner: "th_userId t = userId"
  shows "(isl (snd (getConversationProc reader threadId userId limit)) \<longleftrightarrow>
            \<not> distinct (map msg_id (messages t)) \<or>
            (\<exists>m \<in> set (messages t). timestamp m = 0 \<or> role m = [] \<or> content m = [])) \<and>
         (\<forall>c. snd (getConversationProc reader threadId userId limit) = Inr c \<longrightarrow>
            sorted (map timestamp (conv_messages c)) \<and>
            messageCount c = length (messages t) \<and>
            conv_messages c =
              (case limit of
                 None \<Rightarrow> sort_key timestamp (messages t)
               | Some n \<Rightarrow> if n = 0 then sort_key timestamp (messages t)
                           else js_slice (- n) (sort_key timestamp (messages t))) \<and>
            (\<forall>n. limit = Some n \<and> 0 < n \<longrightarrow>
               conv_messages c
                 = drop (length (messages t) - nat n) (sort_key timestamp (messages t))))"
proof -
  let ?sorted = "sort_key timestamp (messages t)"
  have check: "checkMessages {} ?sorted = None \<longleftrightarrow>
      distinct (map msg_id (messages t)) \<and>
      (\<forall>m \<in> set (messages t). timestamp m \<noteq> 0 \<and> role m \<noteq> [] \<and> content m \<noteq> [])"
    by (simp add: checkMessages_None_iff distinct_map_sort_key)
  have fails: "isl (snd (getConversationProc reader threadId userId limit)) \<longleftrightarrow>
      checkMessages {} ?sorted \<noteq> None"
    using stored args owner
    by (auto simp: getConversationProc_def Let_def split: option.splits)
  have sorted_all: "sorted (map timestamp ?sorted)"
    by simp
  have sorted_slice: "sorted (map timestamp (js_slice k ?sorted))" for k
    using sorted_all by (simp add: js_slice_def drop_map [symmetric] sorted_wrt_drop del: sorted_sort_key)
  have returns: "sorted (map timestamp (conv_messages c)) \<and>
            messageCount c = length (messages t) \<and>
            conv_messages c =
              (case limit of
                 None \<Rightarrow> ?sorted
               | Some n \<Rightarrow> if n = 0 then ?sorted else js_slice (- n) ?sorted) \<and>
            (\<forall>n. limit = Some n \<and> 0 < n \<longrightarrow>
               conv_messages c = drop (length (messages t) - nat n) ?sorted)"
    if "snd (getConversationProc reader threadId userId limit) = Inr c" for c
    using that stored args owner sorted_all sorted_slice
    by (auto simp: getConversationProc_def Let_def js_slice_last split: option.splits if_splits)
  have part1: "isl (snd (getConversationProc reader threadId userId limit)) \<longleftrightarrow>
            \<not> distinct (map msg_id (messages t)) \<or>
            (\<exists>m \<in> set (messages t). timestamp m = 0 \<or> role m = [] \<or> content m = [])"
    using check fails by auto
  have part2: "\<forall>c. snd (getConversationProc reader threadId userId limit) = Inr c \<longrightarrow>
            sorted (map timestamp (conv_messages c)) \<and>
            messageCount c = length (messages t) \<and>
            conv_messages c =
              (case limit of
                 None \<Rightarrow> ?sorted
               | Some n \<Rightarrow> if n = 0 then ?sorted else js_slice (- n) ?sorted) \<and>
            (\<forall>n. limit = Some n \<and> 0 < n \<longrightarrow>
               conv_messages c = drop (length (messages t) - nat n) ?sorted)"
    using returns by (intro allI impI)
  from part1 part2 show ?thesis
    by (rule conjI)
qed
text \<open>
  The owner \<open>u2\<close> asks for the last message of \<open>t1\<close>: the later message comes
  back alone, and the count is 2.
\<close>

theorem getConversationProc_outcome_witness:
  "threadOf thread1_view ''t1'' = Some thread1 \<and>
   ''t1'' \<noteq> [] \<and> ''u2'' \<noteq> [] \<and>
   th_userId thread1 = ''u2'' \<and>
   (\<exists>c. snd (getConversationProc thread1_view ''t1'' ''u2'' (Some 1)) = Inr c \<and>
        conv_messages c = [reply] \<and> messageCount c = 2 \<and>
        sorted (map timestamp (conv_messages c)))"
proof -
  have stored: "threadOf thread1_view ''t1'' = Some thread1"
    by (simp add: thread1_view_def)
  have args: "''t1'' \<noteq> [] \<and> ''u2'' \<noteq> []"
    by simp
  have owner: "th_userId thread1 = ''u2''"
    by (simp add: thread1_def)
  have order: "sort_key timestamp (messages thread1) = [hello, reply]"
    by (simp add: thread1_def hello_def reply_def)
  have ok: "\<not> isl (snd (getConversationProc thread1_view ''t1'' ''u2'' (Some 1)))"
    by (simp add: getConversationProc_def thread1_view_def Let_def order owner)
      (simp add: hello_def reply_def)
  then obtain c where c: "snd (getConversationProc thread1_view ''t1'' ''u2'' (Some 1)) = Inr c"
    by (cases "snd (getConversationProc thread1_view ''t1'' ''u2'' (Some 1))") auto
  from getConversationProc_outcome [OF stored args owner, of "Some 1"] c
  have "sorted (map timestamp (conv_messages c))" "messageCount c = length (messages thread1)"
    "conv_messages c = drop (length (messages thread1) - nat 1) (sort_key timestamp (messages thread1))"
    by auto
  with order have "conv_messages c = [reply]" "messageCount c = 2" "sorted (map timestamp (conv_messages c))"
    by (simp_all add: thread1_def)
  with stored owner c show ?thesis
    by simp
qed

text \<open>
  The claim as stated fails: \<open>t1\<close> is stored, its messages have distinct ids and
  none lacks a timestamp, role or content, yet the call of another user throws.
\<close>

theorem getConversationProc_other_user_counterexample:
  "threadOf thread1_view ''t1'' = Some thread1 \<and>
   isl (snd (getConversationProc thread1_view ''t1'' ''u1'' None)) \<and>
   distinct (map msg_id (messages thread1)) \<and>
   list_all (\<lambda>m. timestamp m \<noteq> 0 \<and> role m \<noteq> [] \<and> content m \<noteq> []) (messages thread1)"
  by (simp add: getConversationProc_def thread1_view_def thread1_def hello_def reply_def)

section \<open>BondingCurve\<close>

lemma supported_cost:
  "supported c \<Longrightarrow> \<exists>cost. calculateIntegral c s1 s2 = Inr cost"
  by (cases "curveType c") (simp_all add: supported_def calculateIntegral_def)

lemma first_hit: "\<exists>j \<le> N. (\<forall>i < j. \<not> P i) \<and> (j < N \<longrightarrow> P j)" for P :: "nat \<Rightarrow> bool"
proof (induction N)
  case 0
  show ?case by simp
next
  case (Suc N)
  then obtain j where j: "j \<le> N" "\<forall>i < j. \<not> P i" "j < N \<longrightarrow> P j"
    by blast
  show ?case
  proof (cases "j < N \<or> P N")
    case True
    with j have "j \<le> Suc N" "j < Suc N \<longrightarrow> P j"
      by (auto simp: less_Suc_eq)
    with j(2) show ?thesis
      by blast
  next
    case False
    with j have "j = N" "\<not> P N"
      by auto
    with j(2) have "\<forall>i < Suc N. \<not> P i"
      by (auto simp: less_Suc_eq)
    then show ?thesis
      by (intro exI [of _ "Suc N"]) simp
  qed
qed

lemma bisect_follows_bracket:
  assumes sup: "supported c"
    and le: "i \<le> j" "j \<le> maxIterations"
    and miss: "\<forall>m. i \<le> m \<and> m < j \<longrightarrow> \<not> within_tolerance c cs p m"
    and hit: "j < maxIterations \<longrightarrow> within_tolerance c cs p j"
  shows "bisect c cs p i (fst (bracket c cs p i)) (snd (bracket c cs p i))
           = Inr (num_sub (midpoint c cs p j) (Fin cs), j)"
  using le miss
proof (induction "j - i" arbitrary: i)
  case 0
  then have ij: "i = j"
    by simp
  show ?case
  proof (cases "j < maxIterations")
    case True
    with hit have "within_tolerance c cs p j"
      by simp
    with True ij show ?thesis
      by (subst bisect.simps)
        (auto simp: within_tolerance_def midpoint_def split_beta split: sum.splits)
  next
    case False
    with ij show ?thesis
      by (subst bisect.simps) (simp add: midpoint_def split_beta)
  qed
next
  case (Suc d)
  then have lt: "i < j" and i_max: "i < maxIterations"
    by simp_all
  from Suc.prems lt have out: "\<not> within_tolerance c cs p i"
    by simp
  from supported_cost [OF sup] obtain cost where
    cost: "calculateIntegral c (Fin cs) (num_div (num_add (fst (bracket c cs p i)) (snd (bracket c cs p i))) (Fin 2))
             = Inr cost"
    by blast
  from out cost have far: "\<not> num_lt (num_abs (num_sub cost (Fin p))) (Fin tolerance)"
    by (simp add: within_tolerance_def midpoint_def split_beta)
  have next_step: "bisect c cs p (Suc i) (fst (bracket c cs p (Suc i))) (snd (bracket c cs p (Suc i)))
           = Inr (num_sub (midpoint c cs p j) (Fin cs), j)"
    using Suc.hyps(2) Suc.prems lt
    by (intro Suc.hyps(1)) auto
  show ?case
    using i_max cost far next_step
    by (subst bisect.simps) (auto simp: split_beta Let_def)
qed

text \<open>
  C5. For a curve of a supported type and every current supply and payment, the loop of
  \<^verbatim>\<open>calculateTokensForPayment\<close> returns after \<open>j \<le> 100\<close> completed iterations, where
  \<open>j\<close> is the first iteration whose bracket midpoint has an integral cost within
  \<open>0.0001\<close> of the payment (it returns that midpoint minus the current supply), or
  \<open>j = 100\<close> when no iteration below 100 has one (it returns the midpoint of the final
  bracket minus the current supply).
\<close>

theorem calculateTokensForPayment_bounded:
  assumes "supported c"
  shows "\<exists>j \<le> 100.
      bisect c currentSupply paymentAmount 0 (Fin currentSupply) (upperBound c currentSupply paymentAmount)
        = Inr (num_sub (midpoint c currentSupply paymentAmount j) (Fin currentSupply), j) \<and>
      calculateTokensForPayment c currentSupply paymentAmount
        = Inr (num_sub (midpoint c currentSupply paymentAmount j) (Fin currentSupply)) \<and>
      (\<forall>i < j. \<not> within_tolerance c currentSupply paymentAmount i) \<and>
      (j < 100 \<longrightarrow> within_tolerance c currentSupply paymentAmount j)"
proof -
  from first_hit [of maxIterations "within_tolerance c currentSupply paymentAmount"]
  obtain j where j: "j \<le> maxIterations"
    and miss: "\<forall>i < j. \<not> within_tolerance c currentSupply paymentAmount i"
    and hit: "j < maxIterations \<longrightarrow> within_tolerance c currentSupply paymentAmount j"
    by blast
  from bisect_follows_bracket [OF assms _ j _ hit, of 0] miss
  have run: "bisect c currentSupply paymentAmount 0 (Fin currentSupply)
               (upperBound c currentSupply paymentAmount)
        = Inr (num_sub (midpoint c currentSupply paymentAmount j) (Fin currentSupply), j)"
    by simp
  then have "calculateTokensForPayment c currentSupply paymentAmount
        = Inr (num_sub (midpoint c currentSupply paymentAmount j) (Fin currentSupply))"
    by (simp add: calculateTokensForPayment_def)
  moreover note run miss
  moreover from j have "j \<le> 100"
    by (simp add: maxIterations_def)
  moreover from hit have "j < 100 \<longrightarrow> within_tolerance c currentSupply paymentAmount j"
    by (simp add: maxIterations_def)
  ultimately show ?thesis
    by (intro exI [of _ j] conjI)
qed

text \<open>
  On the linear curve with \<open>k = 1\<close> the payment 8 at supply 0 is met by the first
  midpoint, 4: the loop returns in its first iteration.
\<close>

theorem calculateTokensForPayment_bounded_witness:
  "supported linear_curve \<and>
   within_tolerance linear_curve 0 8 0 \<and>
   bisect linear_curve 0 8 0 (Fin 0) (upperBound linear_curve 0 8) = Inr (Fin 4, 0) \<and>
   calculateTokensForPayment linear_curve 0 8 = Inr (Fin 4)"
proof -
  have sup: "supported linear_curve"
    by (simp add: supported_def linear_curve_def)
  have mid: "midpoint linear_curve 0 8 0 = Fin 4"
    by (simp add: midpoint_def upperBound_def linear_curve_def)
  have hit: "within_tolerance linear_curve 0 8 0"
    by (simp add: within_tolerance_def mid)
      (simp add: calculateIntegral_def linear_curve_def num_sub_def tolerance_def)
  from calculateTokensForPayment_bounded [OF sup, of 0 8]
  obtain j where j: "bisect linear_curve 0 8 0 (Fin 0) (upperBound linear_curve 0 8)
        = Inr (num_sub (midpoint linear_curve 0 8 j) (Fin 0), j)"
    "calculateTokensForPayment linear_curve 0 8 = Inr (num_sub (midpoint linear_curve 0 8 j) (Fin 0))"
    "\<forall>i < j. \<not> within_tolerance linear_curve 0 8 i"
    by (elim exE conjE)
  from j(3) hit have "j = 0"
    by (cases j) auto
  with j mid sup hit show ?thesis
    by (simp add: num_sub_def)
qed

text \<open>
  C6. The claim does not hold of the program for the exponential curve with rate 0.
  Its price \<open>k e\<^sup>0\<close> is the constant \<open>k\<close>, here 1, at every supply, so the cost of
  going from \<open>s1\<close> to \<open>s2\<close> is \<open>s2 - s1\<close>. But \<^verbatim>\<open>calculateIntegral\<close> divides \<open>k\<close>
  by the rate without a guard and multiplies the infinity by \<open>e\<^sup>0 - e\<^sup>0 = 0\<close>: it
  returns NaN for every pair of supplies, from 0 to 1 as from 0 to 2, and NaN is
  neither the area under the curve nor below or above any number. (The polynomial
  case divides by \<open>n + 1\<close> in the same way; the exponent is a natural number here, so
  that \<open>n = -1\<close> does not occur.)
\<close>

theorem calculateIntegral_zero_rate:
  "calculatePrice flat_curve (Fin s) = Inr (Fin 1) \<and>
   calculateIntegral flat_curve (Fin s1) (Fin s2) = Inr NaN \<and>
   calculateIntegral flat_curve (Fin 0) (Fin 1) = Inr NaN \<and>
   calculateIntegral flat_curve (Fin 0) (Fin 1) \<noteq> Inr (Fin 1) \<and>
   calculateIntegral flat_curve (Fin 0) (Fin 2) = Inr NaN \<and>
   \<not> num_lt NaN NaN \<and> \<not> num_le NaN NaN"
  by (simp add: calculatePrice_def calculateIntegral_def flat_curve_def num_sub_def)

section \<open>Storage\<close>

text \<open>
  C4. With a CryptoProvider whose decoding, decryption and unwrapping invert encoding,
  encryption and wrapping, \<^verbatim>\<open>saveData(id, v)\<close> followed by \<^verbatim>\<open>loadData(id)\<close> returns
  \<open>v\<close>, encrypted or not. When \<open>encrypted\<close> is set, the persisted payload is the
  ciphertext of the canonical encoding of \<open>v\<close> and differs from it, the cipher leaving
  no plaintext unchanged; when it is not set, the payload is the canonical encoding.
\<close>

theorem Storage_save_load_roundtrip:
  assumes "provider_ok P keys"
  shows "Storage_loadData P keys ident (Storage_saveData P keys freshKey ident v enc st) = Inr v \<and>
         (\<exists>stored. records (Storage_saveData P keys freshKey ident v enc st) ident = Some stored \<and>
            encrypted stored = enc \<and>
            (enc \<longrightarrow> payload stored = symEncrypt P freshKey (canonical P v) \<and>
                     payload stored \<noteq> canonical P v) \<and>
            (\<not> enc \<longrightarrow> payload stored = canonical P v))"
  using assms
  by (simp add: provider_ok_def Storage_loadData_def Storage_saveData_def Let_def)

text \<open>The toy provider meets the assumptions; the value \<open>secret\<close> survives both ways.\<close>

theorem Storage_save_load_roundtrip_witness:
  "provider_ok toy_provider toy_keys \<and>
   Storage_loadData toy_provider toy_keys ''a''
     (Storage_saveData toy_provider toy_keys ''s1'' ''a'' ''secret'' True empty_storage) = Inr ''secret'' \<and>
   Storage_loadData toy_provider toy_keys ''a''
     (Storage_saveData toy_provider toy_keys ''s1'' ''a'' ''secret'' False empty_storage) = Inr ''secret'' \<and>
   map_option payload
     (records (Storage_saveData toy_provider toy_keys ''s1'' ''a'' ''secret'' True empty_storage) ''a'')
     = Some ''#s1secret''"
proof -
  have ok: "provider_ok toy_provider toy_keys"
    by (auto simp: provider_ok_def toy_provider_def toy_keys_def strip_prefix_def)
  from Storage_save_load_roundtrip [OF ok, of "''a''" "''s1''" "''secret''" True empty_storage]
    Storage_save_load_roundtrip [OF ok, of "''a''" "''s1''" "''secret''" False empty_storage]
    ok
  show ?thesis
    by (auto simp: toy_provider_def)
qed

end
